theory Spec2Isabelle
  imports Complex_Main
begin

section \<open>Data model of \<^verbatim>\<open>src/pages/index/index.ts\<close>\<close>

text \<open>
  The page object of the jump game is embedded as a record that every handler takes and
  returns. JavaScript numbers are modelled as ideal reals (the rounding error of doubles is
  not modelled); platform ids, the score and \<^verbatim>\<open>Date.now()\<close> timestamps are integers.

  Renamed fields: \<^verbatim>\<open>Vector2.x/y\<close> are \<open>xcoord/ycoord\<close>, \<^verbatim>\<open>Platform.id\<close> is \<open>pid\<close>,
  \<^verbatim>\<open>Platform.size\<close> is \<open>psize\<close>, \<^verbatim>\<open>player.position\<close> is \<open>pposition\<close>, and \<^verbatim>\<open>this.ctx\<close> is
  the flag \<open>ctx\<close> (true when the canvas context is non-null). Canvas drawing calls, the
  player's display colour and \<^verbatim>\<open>dpr\<close> have no effect on the state and are left out.
\<close>

record Vector2 =
  xcoord :: real
  ycoord :: real

record Platform =
  pid :: int
  position :: Vector2
  psize :: Vector2
  color :: "string option"

record Player =
  pposition :: Vector2
  velocity :: Vector2
  radius :: real
  onGround :: bool

text \<open>
  The five results of \<^verbatim>\<open>Math.random()\<close> that one call of \<^verbatim>\<open>generateNextPlatform\<close>
  consumes, in the order in which the source draws them.
\<close>

record draws =
  r_dx :: real
  r_sign :: real
  r_w :: real
  r_y :: real
  r_color :: real

record Page =
  gameStarted :: bool
  gameOver :: bool
  showOverlay :: bool
  score :: int
  ctx :: bool
  canvasWidth :: real
  canvasHeight :: real
  player :: Player
  platforms :: "Platform list"
  currentPlatformId :: int
  targetPlatformId :: int
  pressStartTime :: int
  isPressing :: bool

datatype error = TypeError

text \<open>
  A handler either completes (\<open>Inr\<close> the new state) or throws; since the page object is
  mutated in place, \<open>Inl\<close> carries the state as it stands at the moment of the throw.
\<close>

type_synonym outcome = "(error \<times> Page) + Page"

fun state_of :: "outcome \<Rightarrow> Page" where
  "state_of (Inl (e, s)) = s"
| "state_of (Inr s) = s"

section \<open>Helpers\<close>

definition gravity :: real where
  "gravity = 2000"

definition chargeFactor :: real where
  "chargeFactor = 42 / 10"

definition horizontalFactor :: real where
  "horizontalFactor = 6 / 10"

text \<open>\<^verbatim>\<open>Math.round\<close>: the nearest integer, halves rounded up.\<close>

definition js_round :: "real \<Rightarrow> real" where
  "js_round v = of_int \<lfloor>v + 1 / 2\<rfloor>"

text \<open>\<^verbatim>\<open>Math.hypot\<close> of two arguments.\<close>

definition hypot :: "real \<Rightarrow> real \<Rightarrow> real" where
  "hypot a b = sqrt (a\<^sup>2 + b\<^sup>2)"

text \<open>\<^verbatim>\<open>randInt\<close>, with the result \<open>r\<close> of its \<^verbatim>\<open>Math.random()\<close> call as a parameter.\<close>

definition randInt :: "real \<Rightarrow> real \<Rightarrow> real \<Rightarrow> real" where
  "randInt r mn mx = of_int \<lfloor>r * (mx - mn + 1)\<rfloor> + mn"

definition clamp :: "real \<Rightarrow> real \<Rightarrow> real \<Rightarrow> real" where
  "clamp v lo hi = max lo (min hi v)"

text \<open>Array indexing \<^verbatim>\<open>xs[i]\<close>: \<open>None\<close> is JavaScript's \<^verbatim>\<open>undefined\<close>.\<close>

definition at_index :: "'a list \<Rightarrow> int \<Rightarrow> 'a option" where
  "at_index xs i = (if 0 \<le> i \<and> i < int (length xs) then Some (xs ! nat i) else None)"

definition palette :: "string list" where
  "palette = [''#4ecca3'', ''#f95959'', ''#3f72af'', ''#ffd460'']"

section \<open>Platform generator and world reset\<close>

text \<open>The signed horizontal offset \<^verbatim>\<open>dx\<close> of \<^verbatim>\<open>generateNextPlatform\<close> (lines 115-117).\<close>

definition platformDx :: "draws \<Rightarrow> Page \<Rightarrow> real" where
  "platformDx d s =
     (let minDx = js_round (canvasWidth s * (22 / 100));
          maxDx = js_round (canvasWidth s * (45 / 100))
      in randInt (r_dx d) minDx maxDx * (if r_sign d > 1 / 2 then 1 else - 1))"

definition generateNextPlatform :: "draws \<Rightarrow> Page \<Rightarrow> Platform \<Rightarrow> Platform" where
  "generateNextPlatform d s prev =
     (let dx = platformDx d s;
          minW = js_round (canvasWidth s * (16 / 100));
          maxW = js_round (canvasWidth s * (28 / 100));
          width = randInt (r_w d) minW maxW;
          height = max 12 (js_round (width * (28 / 100)));
          x = clamp (xcoord (position prev) + dx)
                (js_round (canvasWidth s * (18 / 100))) (js_round (canvasWidth s * (82 / 100)));
          yVariance = js_round (canvasHeight s * (6 / 100));
          y = clamp (ycoord (position prev) + randInt (r_y d) (- yVariance) yVariance)
                (js_round (canvasHeight s * (35 / 100))) (js_round (canvasHeight s * (8 / 10)))
      in \<lparr>pid = pid prev + 1,
          position = \<lparr>xcoord = x, ycoord = y\<rparr>,
          psize = \<lparr>xcoord = width, ycoord = height\<rparr>,
          color = at_index palette \<lfloor>randInt (r_color d) 0 3\<rfloor>\<rparr>)"

definition resetWorld :: "draws \<Rightarrow> Page \<Rightarrow> Page" where
  "resetWorld d s =
     (let r = js_round (canvasWidth s / 20);
          baseY = js_round (canvasHeight s * (7 / 10));
          p0 = \<lparr>pid = 0,
                position = \<lparr>xcoord = js_round (canvasWidth s * (3 / 10)), ycoord = baseY\<rparr>,
                psize = \<lparr>xcoord = js_round (canvasWidth s * (22 / 100)),
                         ycoord = js_round (canvasWidth s * (6 / 100))\<rparr>,
                color = Some ''#4ecca3''\<rparr>;
          p1 = generateNextPlatform d s p0
      in s\<lparr>platforms := [p0, p1],
           currentPlatformId := 0,
           targetPlatformId := 1,
           score := 0,
           player := \<lparr>pposition = \<lparr>xcoord = xcoord (position p0),
                                     ycoord = ycoord (position p0) - r - 6\<rparr>,
                      velocity = \<lparr>xcoord = 0, ycoord = 0\<rparr>,
                      radius = r,
                      onGround = True\<rparr>\<rparr>)"

text \<open>
  \<^verbatim>\<open>initCanvas\<close> runs once, from \<^verbatim>\<open>onLoad\<close>: it stores the window size and issues the
  canvas query. \<open>initCanvas\<close> is that synchronous part, with the window size as parameters.
  \<open>canvasReady\<close> is the query callback in the case where the canvas node and its 2D
  context were found (lines 73-84; otherwise the callback returns without any effect); the
  first frame it then schedules is an ordinary tick on a grounded player.
\<close>

definition initCanvas :: "real \<Rightarrow> real \<Rightarrow> Page \<Rightarrow> Page" where
  "initCanvas w h s = s\<lparr>canvasWidth := w, canvasHeight := h\<rparr>"

definition canvasReady :: "draws \<Rightarrow> Page \<Rightarrow> Page" where
  "canvasReady d s = resetWorld d (s\<lparr>ctx := True\<rparr>)"

section \<open>Session transitions and input handlers\<close>

definition startGame :: "draws \<Rightarrow> Page \<Rightarrow> Page" where
  "startGame d s =
     (if gameStarted s then s
      else resetWorld d (s\<lparr>gameStarted := True, gameOver := False, showOverlay := False\<rparr>))"

definition restartGame :: "draws \<Rightarrow> Page \<Rightarrow> Page" where
  "restartGame d s = resetWorld d (s\<lparr>gameOver := False, showOverlay := False\<rparr>)"

definition endGame :: "Page \<Rightarrow> Page" where
  "endGame s = s\<lparr>gameOver := True, showOverlay := True, gameStarted := True\<rparr>"

definition onTouchStart :: "int \<Rightarrow> Page \<Rightarrow> Page" where
  "onTouchStart now s =
     (if \<not> gameStarted s \<or> gameOver s then s
      else s\<lparr>isPressing := True, pressStartTime := now\<rparr>)"

text \<open>
  \<^verbatim>\<open>onTouchEnd\<close>: reading \<^verbatim>\<open>.position\<close> of an \<^verbatim>\<open>undefined\<close> platform (line 164) throws
  after \<^verbatim>\<open>isPressing\<close> has been cleared.
\<close>

definition onTouchEnd :: "int \<Rightarrow> Page \<Rightarrow> outcome" where
  "onTouchEnd now s =
     (if \<not> gameStarted s \<or> gameOver s then Inr s
      else if \<not> isPressing s then Inr s
      else
        let s1 = s\<lparr>isPressing := False\<rparr>;
            dtMs = real_of_int (now - pressStartTime s);
            power = min (dtMs / 1000) (12 / 10) * chargeFactor * canvasWidth s
        in case (at_index (platforms s) (currentPlatformId s),
                 at_index (platforms s) (targetPlatformId s)) of
             (Some current, Some target) \<Rightarrow>
               (let dirX = xcoord (position target) - xcoord (position current);
                    dirY = ycoord (position target) - ycoord (position current);
                    len = max 1 (hypot dirX dirY);
                    nx = dirX / len;
                    ny = dirY / len
                in Inr (s1\<lparr>player := (player s)
                          \<lparr>onGround := False,
                           velocity := \<lparr>xcoord = nx * power * horizontalFactor,
                                        ycoord = ny * power * (4 / 10) - power * (8 / 10)\<rparr>\<rparr>\<rparr>))
           | _ \<Rightarrow> Inl (TypeError, s1))"

section \<open>The frame update\<close>

definition checkLanding :: "Page \<Rightarrow> Platform \<Rightarrow> bool" where
  "checkLanding s platform =
     (let px = xcoord (pposition (player s));
          py = ycoord (pposition (player s)) + radius (player s);
          left = xcoord (position platform) - xcoord (psize platform) / 2;
          right = xcoord (position platform) + xcoord (psize platform) / 2;
          top = ycoord (position platform) - ycoord (psize platform) / 2 - 2;
          bottom = ycoord (position platform) + ycoord (psize platform) / 2 + 4;
          withinX = (px \<ge> left \<and> px \<le> right);
          withinY = (py \<ge> top \<and> py \<le> bottom \<and> ycoord (velocity (player s)) \<ge> 0)
      in withinX \<and> withinY)"

definition shiftX :: "real \<Rightarrow> Platform \<Rightarrow> Platform" where
  "shiftX dx p = p\<lparr>position := (position p)\<lparr>xcoord := xcoord (position p) + dx\<rparr>\<rparr>"

text \<open>
  \<^verbatim>\<open>recenterWorld\<close>: \<^verbatim>\<open>current.position\<close> throws when the lookup by
  \<^verbatim>\<open>currentPlatformId\<close> is \<^verbatim>\<open>undefined\<close>. The trim sits after the early return on
  \<^verbatim>\<open>dx === 0\<close>; \<^verbatim>\<open>slice(-6)\<close> keeps the last six entries.
\<close>

definition recenterWorld :: "Page \<Rightarrow> outcome" where
  "recenterWorld s =
     (let desiredX = js_round (canvasWidth s * (3 / 10))
      in case at_index (platforms s) (currentPlatformId s) of
           None \<Rightarrow> Inl (TypeError, s)
         | Some current \<Rightarrow>
             (let dx = desiredX - xcoord (position current)
              in if dx = 0 then Inr s
                 else
                   let ps = map (shiftX dx) (platforms s);
                       pl = (player s)\<lparr>pposition := (pposition (player s))
                              \<lparr>xcoord := xcoord (pposition (player s)) + dx\<rparr>\<rparr>;
                       s1 = s\<lparr>platforms := ps, player := pl\<rparr>
                   in if length ps > 8
                      then let kept = drop (length ps - 6) ps
                           in Inr (s1\<lparr>platforms := kept,
                                      currentPlatformId := pid (hd kept),
                                      targetPlatformId := pid (hd kept) + 1\<rparr>)
                      else Inr s1))"

text \<open>The physics step of \<^verbatim>\<open>update\<close> (lines 183-185).\<close>

definition integrate :: "real \<Rightarrow> Page \<Rightarrow> Page" where
  "integrate dt s =
     (let p = player s;
          vx = xcoord (velocity p);
          vy = ycoord (velocity p) + gravity * dt
      in s\<lparr>player := p\<lparr>velocity := \<lparr>xcoord = vx, ycoord = vy\<rparr>,
                       pposition := \<lparr>xcoord = xcoord (pposition p) + vx * dt,
                                     ycoord = ycoord (pposition p) + vy * dt\<rparr>\<rparr>\<rparr>)"

text \<open>The landing branch of \<^verbatim>\<open>update\<close> (lines 190-196).\<close>

definition land :: "draws \<Rightarrow> Platform \<Rightarrow> Page \<Rightarrow> outcome" where
  "land d target s =
     recenterWorld
       (s\<lparr>player := (player s)\<lparr>onGround := True, velocity := \<lparr>xcoord = 0, ycoord = 0\<rparr>\<rparr>,
          currentPlatformId := pid target,
          targetPlatformId := pid target + 1,
          platforms := platforms s @ [generateNextPlatform d s target],
          score := score s + 1\<rparr>)"

text \<open>The miss check of \<^verbatim>\<open>update\<close> (lines 200-202).\<close>

definition fellBelow :: "Page \<Rightarrow> bool" where
  "fellBelow s \<longleftrightarrow>
     ycoord (pposition (player s)) - radius (player s) > canvasHeight s + 80"

definition missCheck :: "Page \<Rightarrow> Page" where
  "missCheck s = (if fellBelow s then endGame s else s)"

text \<open>
  \<^verbatim>\<open>draw\<close> changes no state; its only platform lookups are those of the aim line, drawn
  while pressing on the ground (lines 307-317).
\<close>

definition draw :: "Page \<Rightarrow> outcome" where
  "draw s =
     (if isPressing s \<and> onGround (player s)
      then (case (at_index (platforms s) (currentPlatformId s),
                  at_index (platforms s) (targetPlatformId s)) of
              (Some current, Some target) \<Rightarrow> Inr s
            | _ \<Rightarrow> Inl (TypeError, s))
      else Inr s)"

text \<open>
  \<^verbatim>\<open>update\<close>, with the frame time \<open>dt\<close> in seconds that \<^verbatim>\<open>renderLoop\<close> passes (at most 0.033)
  and the draws for the platform that a landing generates. \<^verbatim>\<open>checkLanding\<close> throws when the
  lookup by \<^verbatim>\<open>targetPlatformId\<close> is \<^verbatim>\<open>undefined\<close>; a throw in the landing branch skips the
  miss check and the drawing.
\<close>

definition update :: "real \<Rightarrow> draws \<Rightarrow> Page \<Rightarrow> outcome" where
  "update dt d s =
     (if \<not> ctx s then Inr s
      else if \<not> onGround (player s)
      then
        let s1 = integrate dt s
        in case at_index (platforms s1) (targetPlatformId s1) of
             None \<Rightarrow> Inl (TypeError, s1)
           | Some target \<Rightarrow>
               (case (if checkLanding s1 target then land d target s1 else Inr s1) of
                  Inl e \<Rightarrow> Inl e
                | Inr s2 \<Rightarrow> draw (missCheck s2))
      else draw s)"

section \<open>Sessions\<close>

text \<open>The page object as the source initialises it.\<close>

definition initial :: Page where
  "initial =
     \<lparr>gameStarted = False, gameOver = False, showOverlay = True, score = 0,
      ctx = False, canvasWidth = 0, canvasHeight = 0,
      player = \<lparr>pposition = \<lparr>xcoord = 0, ycoord = 0\<rparr>,
                velocity = \<lparr>xcoord = 0, ycoord = 0\<rparr>,
                radius = 18, onGround = False\<rparr>,
      platforms = [], currentPlatformId = 0, targetPlatformId = 0,
      pressStartTime = 0, isPressing = False\<rparr>"

datatype event =
    CanvasReady draws
  | StartGame draws
  | RestartGame draws
  | TouchStart int
  | TouchEnd int
  | Tick real draws

fun step :: "event \<Rightarrow> Page \<Rightarrow> outcome" where
  "step (CanvasReady d) s = Inr (canvasReady d s)"
| "step (StartGame d) s = Inr (startGame d s)"
| "step (RestartGame d) s = Inr (restartGame d s)"
| "step (TouchStart now) s = Inr (onTouchStart now s)"
| "step (TouchEnd now) s = onTouchEnd now s"
| "step (Tick dt d) s = update dt d s"

text \<open>\<^verbatim>\<open>Math.random()\<close> returns a number in \<open>[0, 1)\<close>.\<close>

definition valid_draws :: "draws \<Rightarrow> bool" where
  "valid_draws d \<longleftrightarrow>
     0 \<le> r_dx d \<and> r_dx d < 1 \<and> 0 \<le> r_sign d \<and> r_sign d < 1 \<and> 0 \<le> r_w d \<and> r_w d < 1 \<and>
     0 \<le> r_y d \<and> r_y d < 1 \<and> 0 \<le> r_color d \<and> r_color d < 1"

fun valid_event :: "event \<Rightarrow> bool" where
  "valid_event (CanvasReady d) = valid_draws d"
| "valid_event (StartGame d) = valid_draws d"
| "valid_event (RestartGame d) = valid_draws d"
| "valid_event (TouchStart now) = True"
| "valid_event (TouchEnd now) = True"
| "valid_event (Tick dt d) = valid_draws d"

text \<open>
  The states of the page object that a run of handler calls can leave behind, starting from
  the page as \<^verbatim>\<open>onLoad\<close> leaves it. A handler that throws leaves the state it had mutated
  so far, and later handlers see that state.
\<close>

inductive reachable :: "Page \<Rightarrow> bool" where
  reach_load: "reachable (initCanvas w h initial)"
| reach_step: "reachable s \<Longrightarrow> valid_event e \<Longrightarrow> reachable (state_of (step e s))"

text \<open>Running a list of events, stopping at the first throw.\<close>

fun run :: "event list \<Rightarrow> Page \<Rightarrow> outcome" where
  "run [] s = Inr s"
| "run (e # es) s = (case step e s of Inl f \<Rightarrow> Inl f | Inr s' \<Rightarrow> run es s')"

section \<open>Invariant of the reachable states\<close>

text \<open>
  The geometry that \<^verbatim>\<open>resetWorld\<close> and \<^verbatim>\<open>generateNextPlatform\<close> give every platform of a
  viewport: the centre is at most \<open>round (0.8 h)\<close> down, and the height is at most
  \<open>max 12 (round (0.28 round (0.28 w)))\<close>, bounded here by \<open>max 12 (0.0784 w + 0.64)\<close>.
\<close>

definition shape_ok :: "Page \<Rightarrow> Platform \<Rightarrow> bool" where
  "shape_ok s p \<longleftrightarrow>
     ycoord (position p) \<le> js_round (canvasHeight s * (8 / 10)) \<and>
     ycoord (psize p) \<le> max 12 (canvasWidth s * (784 / 10000) + 64 / 100)"

text \<open>
  What every handler preserves: once platforms exist the target id is the current id plus
  one and the radius is \<open>round (w / 20)\<close>; a session that was never started and has a canvas
  context has a grounded player; every platform has the generator's geometry.
\<close>

definition session_inv :: "Page \<Rightarrow> bool" where
  "session_inv s \<longleftrightarrow>
     (platforms s \<noteq> [] \<longrightarrow>
        targetPlatformId s = currentPlatformId s + 1 \<and>
        radius (player s) = js_round (canvasWidth s / 20)) \<and>
     (ctx s \<and> \<not> gameStarted s \<longrightarrow> onGround (player s)) \<and>
     (0 \<le> canvasWidth s \<and> 0 \<le> canvasHeight s \<longrightarrow> (\<forall>p \<in> set (platforms s). shape_ok s p))"

text \<open>
  The states reached by runs in which no handler threw, and the shape of the id sequence in
  them: either the ids count up from 0 and the target is the last platform, or the window
  was trimmed to six platforms whose ids count up from \<open>currentPlatformId\<close>.
\<close>

inductive completes :: "Page \<Rightarrow> bool" where
  completes_load: "completes (initCanvas w h initial)"
| completes_step: "completes s \<Longrightarrow> valid_event e \<Longrightarrow> step e s = Inr s' \<Longrightarrow> completes s'"

definition ids_from :: "int \<Rightarrow> Platform list \<Rightarrow> bool" where
  "ids_from k ps \<longleftrightarrow> map pid ps = map (\<lambda>i. k + int i) [0..<length ps]"

definition ids_inv :: "Page \<Rightarrow> bool" where
  "ids_inv s \<longleftrightarrow>
     platforms s = [] \<or>
     (ids_from 0 (platforms s) \<and> 2 \<le> length (platforms s) \<and>
      targetPlatformId s = int (length (platforms s)) - 1 \<and>
      currentPlatformId s = targetPlatformId s - 1) \<or>
     (ids_from (currentPlatformId s) (platforms s) \<and> length (platforms s) = 6 \<and>
      targetPlatformId s = currentPlatformId s + 1 \<and> 3 \<le> currentPlatformId s)"

section \<open>Concrete inputs\<close>

text \<open>
  The page loaded in a 400 x 800 window, the first platform that \<^verbatim>\<open>resetWorld\<close> builds for
  it, and two sets of random draws: smallest offset, widest platform, no vertical drift,
  first colour, to the left and to the right.
\<close>

definition page400 :: Page where
  "page400 = initCanvas 400 800 initial"

definition platform0 :: Platform where
  "platform0 = \<lparr>pid = 0, position = \<lparr>xcoord = 120, ycoord = 560\<rparr>,
                psize = \<lparr>xcoord = 88, ycoord = 24\<rparr>, color = Some ''#4ecca3''\<rparr>"

definition draws_left :: draws where
  "draws_left = \<lparr>r_dx = 0, r_sign = 1 / 4, r_w = 99 / 100, r_y = 1 / 2, r_color = 0\<rparr>"

definition draws_right :: draws where
  "draws_right = \<lparr>r_dx = 0, r_sign = 3 / 4, r_w = 99 / 100, r_y = 1 / 2, r_color = 0\<rparr>"

text \<open>
  A platform of the widest size on the base line \<open>y = 560\<close>, as the draws above produce it,
  and a quick tap: press, release 25 ms later, one frame of 25 ms.
\<close>

definition wide :: "int \<Rightarrow> real \<Rightarrow> Platform" where
  "wide i cx = \<lparr>pid = i, position = \<lparr>xcoord = cx, ycoord = 560\<rparr>,
               psize = \<lparr>xcoord = 112, ycoord = 31\<rparr>, color = Some ''#4ecca3''\<rparr>"

definition tap :: "int \<Rightarrow> draws \<Rightarrow> event list" where
  "tap t d = [TouchStart t, TouchEnd (t + 25), Tick (1 / 40) d]"

text \<open>
  Seven landings in a row. The draws alternate between right and left so that each new
  target overlaps the spot where the player stands (the clamp of the generator pulls the
  first platform drawn to the left back to \<open>x = 72\<close>), and a tap is enough to land on it. \<open>pre_evict_trace\<close> stops after the seventh release, \<open>pre_evicted\<close> is the
  state it reaches, \<open>evicted\<close> the state after the seventh landing, whose recentering trims
  the nine platforms to six, \<open>relaunched\<close> the state after one more press and release, and
  \<open>faulted\<close> the state that the next frame leaves behind.
\<close>

definition pre_evict_trace :: "event list" where
  "pre_evict_trace = [CanvasReady draws_left, StartGame draws_left]
     @ tap 1000 draws_right @ tap 2000 draws_left @ tap 3000 draws_right @ tap 4000 draws_left
     @ tap 5000 draws_right @ tap 6000 draws_left @ [TouchStart 7000, TouchEnd 7025]"

definition pre_evicted :: Page where
  "pre_evicted =
     \<lparr>gameStarted = True, gameOver = False, showOverlay = False, score = 6,
      ctx = True, canvasWidth = 400, canvasHeight = 800,
      player = \<lparr>pposition = \<lparr>xcoord = 80, ycoord = 26823 / 50\<rparr>,
                velocity = \<lparr>xcoord = - (126 / 5), ycoord = - (168 / 5)\<rparr>,
                radius = 20, onGround = False\<rparr>,
      platforms = [platform0\<lparr>position := \<lparr>xcoord = 80, ycoord = 560\<rparr>\<rparr>,
                   wide 1 32, wide 2 120, wide 3 32, wide 4 120, wide 5 32, wide 6 120,
                   wide 7 32],
      currentPlatformId = 6, targetPlatformId = 7, pressStartTime = 7000, isPressing = False\<rparr>"

definition evicted :: Page where
  "evicted =
     \<lparr>gameStarted = True, gameOver = False, showOverlay = False, score = 7,
      ctx = True, canvasWidth = 400, canvasHeight = 800,
      player = \<lparr>pposition = \<lparr>xcoord = 16737 / 100, ycoord = 53687 / 100\<rparr>,
                velocity = \<lparr>xcoord = 0, ycoord = 0\<rparr>, radius = 20, onGround = True\<rparr>,
      platforms = [wide 3 120, wide 4 208, wide 5 120, wide 6 208, wide 7 120, wide 8 208],
      currentPlatformId = 3, targetPlatformId = 4, pressStartTime = 7000, isPressing = False\<rparr>"

definition relaunched :: Page where
  "relaunched =
     evicted\<lparr>player := \<lparr>pposition = \<lparr>xcoord = 16737 / 100, ycoord = 53687 / 100\<rparr>,
                         velocity = \<lparr>xcoord = - (126 / 5), ycoord = - (168 / 5)\<rparr>,
                         radius = 20, onGround = False\<rparr>,
             pressStartTime := 8000\<rparr>"

definition faulted :: Page where
  "faulted =
     \<lparr>gameStarted = True, gameOver = False, showOverlay = False, score = 8,
      ctx = True, canvasWidth = 400, canvasHeight = 800,
      player = \<lparr>pposition = \<lparr>xcoord = 8337 / 50, ycoord = 13432 / 25\<rparr>,
                velocity = \<lparr>xcoord = 0, ycoord = 0\<rparr>, radius = 20, onGround = True\<rparr>,
      platforms = [wide 3 120, wide 4 208, wide 5 120, wide 6 208, wide 7 120, wide 8 208,
                   wide 8 72],
      currentPlatformId = 7, targetPlatformId = 8, pressStartTime = 8000, isPressing = False\<rparr>"

text \<open>
  A jump that misses: the target is to the right, the tap is too weak to reach it, and after
  nineteen frames of 33 ms the player is below the fall line.
\<close>

definition fall_tick :: event where
  "fall_tick = Tick (33 / 1000) draws_right"

definition fall_trace :: "event list" where
  "fall_trace = [CanvasReady draws_right, StartGame draws_right, TouchStart 1000, TouchEnd 1025,
     fall_tick, fall_tick, fall_tick, fall_tick, fall_tick, fall_tick, fall_tick, fall_tick,
     fall_tick, fall_tick, fall_tick, fall_tick, fall_tick, fall_tick, fall_tick, fall_tick,
     fall_tick, fall_tick, fall_tick]"

definition fallen :: Page where
  "fallen =
     \<lparr>gameStarted = True, gameOver = True, showOverlay = True, score = 0,
      ctx = True, canvasWidth = 400, canvasHeight = 800,
      player = \<lparr>pposition = \<lparr>xcoord = 339501 / 2500, ycoord = 1158441 / 1250\<rparr>,
                velocity = \<lparr>xcoord = 126 / 5, ycoord = 6102 / 5\<rparr>,
                radius = 20, onGround = False\<rparr>,
      platforms = [platform0, wide 1 208],
      currentPlatformId = 0, targetPlatformId = 1, pressStartTime = 1000, isPressing = False\<rparr>"

text \<open>
  Short runs from the loaded page: canvas ready and game started (target to the left or to
  the right), a press at time 1000, and its release 25 ms later.
\<close>

definition started_left :: Page where
  "started_left = startGame draws_left (canvasReady draws_left page400)"

definition started_right :: Page where
  "started_right = startGame draws_right (canvasReady draws_right page400)"

definition pressed_right :: Page where
  "pressed_right = onTouchStart 1000 started_right"

definition launched_right :: Page where
  "launched_right = state_of (onTouchEnd 1025 pressed_right)"

definition launched_left :: Page where
  "launched_left = state_of (onTouchEnd 1025 (onTouchStart 1000 started_left))"

text \<open>
  The state after the first landing of the run to the left.
\<close>

definition landed_left :: Page where
  "landed_left =
     \<lparr>gameStarted = True, gameOver = False, showOverlay = False, score = 1,
      ctx = True, canvasWidth = 400, canvasHeight = 800,
      player = \<lparr>pposition = \<lparr>xcoord = 16737 / 100, ycoord = 53441 / 100\<rparr>,
                velocity = \<lparr>xcoord = 0, ycoord = 0\<rparr>, radius = 20, onGround = True\<rparr>,
      platforms = [platform0\<lparr>position := \<lparr>xcoord = 168, ycoord = 560\<rparr>\<rparr>,
                   wide 1 120, wide 2 208],
      currentPlatformId = 1, targetPlatformId = 2, pressStartTime = 1000, isPressing = False\<rparr>"

section \<open>Arithmetic of the helpers\<close>

lemma js_round_mono: "a \<le> b \<Longrightarrow> js_round a \<le> js_round b"
  unfolding js_round_def by (simp add: floor_mono)

lemma js_round_nonneg: "0 \<le> a \<Longrightarrow> 0 \<le> js_round a"
  unfolding js_round_def by simp

lemma js_round_upper: "js_round a \<le> a + 1 / 2"
  unfolding js_round_def by linarith

lemma js_round_lower: "a - 1 / 2 < js_round a"
  unfolding js_round_def by linarith

lemma js_round_is_int: "js_round a \<in> \<int>"
  unfolding js_round_def by simp

lemma js_round_numeral [simp]: "js_round (numeral n) = numeral n"
  unfolding js_round_def by simp

lemma randInt_lower: "0 \<le> r \<Longrightarrow> mn \<le> mx \<Longrightarrow> mn \<le> randInt r mn mx"
  unfolding randInt_def by simp

lemma randInt_upper:
  assumes "r < 1" "0 \<le> r" "mn \<le> mx" "mn \<in> \<int>" "mx \<in> \<int>"
  shows "randInt r mn mx \<le> mx"
proof -
  from assms obtain a b where ab: "mn = of_int a" "mx = of_int b"
    by (auto simp: Ints_def)
  have pos: "0 < mx - mn + 1" using assms by simp
  have "r * (mx - mn + 1) < 1 * (mx - mn + 1)"
    using assms pos by (intro mult_strict_right_mono) auto
  then have "r * (mx - mn + 1) < of_int (b - a + 1)" using ab by simp
  then have "\<lfloor>r * (mx - mn + 1)\<rfloor> < b - a + 1" by (simp only: floor_less_iff)
  then have "\<lfloor>r * (mx - mn + 1)\<rfloor> \<le> b - a" by simp
  then have "real_of_int \<lfloor>r * (mx - mn + 1)\<rfloor> \<le> of_int (b - a)" by (simp only: of_int_le_iff)
  then show ?thesis unfolding randInt_def using ab by simp
qed

lemma clamp_upper: "lo \<le> hi \<Longrightarrow> clamp v lo hi \<le> hi"
  unfolding clamp_def by simp

lemma clamp_lower: "lo \<le> clamp v lo hi"
  unfolding clamp_def by simp

lemma clamp_id: "lo \<le> v \<Longrightarrow> v \<le> hi \<Longrightarrow> clamp v lo hi = v"
  unfolding clamp_def by simp

lemma clamp_closer:
  assumes "lo \<le> p" "p \<le> hi"
  shows "\<bar>clamp (p + dx) lo hi - p\<bar> \<le> \<bar>dx\<bar>"
  using assms unfolding clamp_def by (auto simp: max_def min_def abs_if)

lemma hypot_zero: "hypot a 0 = \<bar>a\<bar>"
  by (simp add: hypot_def)

lemma at_index_mem: "at_index xs i = Some v \<Longrightarrow> v \<in> set xs"
  by (auto simp: at_index_def split: if_splits)

lemma at_index_nonempty: "at_index xs i = Some v \<Longrightarrow> xs \<noteq> []"
  by (auto simp: at_index_def split: if_splits)

section \<open>The generator\<close>

lemma platformDx_abs:
  assumes "valid_draws d" "0 \<le> canvasWidth s"
  shows "js_round (canvasWidth s * (22 / 100)) \<le> \<bar>platformDx d s\<bar>"
    and "\<bar>platformDx d s\<bar> \<le> js_round (canvasWidth s * (45 / 100))"
proof -
  let ?mn = "js_round (canvasWidth s * (22 / 100))"
  let ?mx = "js_round (canvasWidth s * (45 / 100))"
  have le: "?mn \<le> ?mx" using assms(2) by (intro js_round_mono mult_left_mono) auto
  have nn: "0 \<le> ?mn" using assms(2) by (intro js_round_nonneg) auto
  have r: "0 \<le> r_dx d" "r_dx d < 1" using assms(1) by (auto simp: valid_draws_def)
  have lo: "?mn \<le> randInt (r_dx d) ?mn ?mx" using r le by (intro randInt_lower) auto
  have hi: "randInt (r_dx d) ?mn ?mx \<le> ?mx"
    using r le by (intro randInt_upper js_round_is_int) auto
  have eq: "\<bar>platformDx d s\<bar> = randInt (r_dx d) ?mn ?mx"
    using lo nn unfolding platformDx_def by (simp add: Let_def abs_mult)
  show "?mn \<le> \<bar>platformDx d s\<bar>" using eq lo by simp
  show "\<bar>platformDx d s\<bar> \<le> ?mx" using eq hi by simp
qed

lemma generate_x:
  "xcoord (position (generateNextPlatform d s prev)) =
     clamp (xcoord (position prev) + platformDx d s)
       (js_round (canvasWidth s * (18 / 100))) (js_round (canvasWidth s * (82 / 100)))"
  unfolding generateNextPlatform_def by (simp add: Let_def)

lemma generate_pid [simp]: "pid (generateNextPlatform d s prev) = pid prev + 1"
  by (simp add: generateNextPlatform_def Let_def)

lemma generate_height:
  assumes "valid_draws d" "0 \<le> canvasWidth s"
  shows "ycoord (psize (generateNextPlatform d s prev))
           \<le> max 12 (canvasWidth s * (784 / 10000) + 64 / 100)"
proof -
  let ?mn = "js_round (canvasWidth s * (16 / 100))"
  let ?mx = "js_round (canvasWidth s * (28 / 100))"
  let ?w = "randInt (r_w d) ?mn ?mx"
  have le: "?mn \<le> ?mx" using assms(2) by (intro js_round_mono mult_left_mono) auto
  have r: "0 \<le> r_w d" "r_w d < 1" using assms(1) by (auto simp: valid_draws_def)
  have "?w \<le> ?mx" using r le by (intro randInt_upper js_round_is_int) auto
  also have "?mx \<le> canvasWidth s * (28 / 100) + 1 / 2" by (rule js_round_upper)
  finally have w: "?w \<le> canvasWidth s * (28 / 100) + 1 / 2" .
  have "js_round (?w * (28 / 100)) \<le> ?w * (28 / 100) + 1 / 2" by (rule js_round_upper)
  also have "\<dots> \<le> canvasWidth s * (784 / 10000) + 64 / 100" using w by simp
  finally have "js_round (?w * (28 / 100)) \<le> canvasWidth s * (784 / 10000) + 64 / 100" .
  then show ?thesis
    unfolding generateNextPlatform_def by (simp add: Let_def max_def)
qed

lemma generate_y:
  assumes "0 \<le> canvasHeight s"
  shows "ycoord (position (generateNextPlatform d s prev)) \<le> js_round (canvasHeight s * (8 / 10))"
proof -
  have "js_round (canvasHeight s * (35 / 100)) \<le> js_round (canvasHeight s * (8 / 10))"
    using assms by (intro js_round_mono mult_left_mono) auto
  then show ?thesis
    unfolding generateNextPlatform_def by (simp add: Let_def clamp_upper)
qed

lemma shape_ok_dims:
  "canvasWidth s' = canvasWidth s \<Longrightarrow> canvasHeight s' = canvasHeight s \<Longrightarrow>
   shape_ok s' p = shape_ok s p"
  by (simp add: shape_ok_def)

lemma shape_ok_shiftX [simp]: "shape_ok s (shiftX dx p) = shape_ok s p"
  by (simp add: shape_ok_def shiftX_def)

lemma generate_shape:
  "valid_draws d \<Longrightarrow> 0 \<le> canvasWidth s \<Longrightarrow> 0 \<le> canvasHeight s \<Longrightarrow>
   shape_ok s (generateNextPlatform d s prev)"
  unfolding shape_ok_def using generate_height generate_y by blast

lemma generate_dims:
  "canvasWidth s' = canvasWidth s \<Longrightarrow> canvasHeight s' = canvasHeight s \<Longrightarrow>
   generateNextPlatform d s' prev = generateNextPlatform d s prev"
  by (simp add: generateNextPlatform_def platformDx_def)

lemma first_platform_shape:
  assumes "0 \<le> canvasWidth s" "0 \<le> canvasHeight s"
  shows "shape_ok s \<lparr>pid = 0,
           position = \<lparr>xcoord = js_round (canvasWidth s * (3 / 10)),
                       ycoord = js_round (canvasHeight s * (7 / 10))\<rparr>,
           psize = \<lparr>xcoord = js_round (canvasWidth s * (22 / 100)),
                    ycoord = js_round (canvasWidth s * (6 / 100))\<rparr>,
           color = Some ''#4ecca3''\<rparr>"
proof -
  have "js_round (canvasHeight s * (7 / 10)) \<le> js_round (canvasHeight s * (8 / 10))"
    using assms by (intro js_round_mono mult_left_mono) auto
  moreover have "js_round (canvasWidth s * (6 / 100)) \<le> canvasWidth s * (6 / 100) + 1 / 2"
    by (rule js_round_upper)
  then have "js_round (canvasWidth s * (6 / 100)) \<le> canvasWidth s * (784 / 10000) + 64 / 100"
    using assms(1) by simp
  ultimately show ?thesis by (simp add: shape_ok_def max_def)
qed

section \<open>What each handler changes\<close>

lemma resetWorld_fields [simp]:
  "canvasWidth (resetWorld d s) = canvasWidth s"
  "canvasHeight (resetWorld d s) = canvasHeight s"
  "gameStarted (resetWorld d s) = gameStarted s"
  "gameOver (resetWorld d s) = gameOver s"
  "ctx (resetWorld d s) = ctx s"
  "isPressing (resetWorld d s) = isPressing s"
  "pressStartTime (resetWorld d s) = pressStartTime s"
  "currentPlatformId (resetWorld d s) = 0"
  "targetPlatformId (resetWorld d s) = 1"
  "onGround (player (resetWorld d s))"
  "velocity (player (resetWorld d s)) = \<lparr>xcoord = 0, ycoord = 0\<rparr>"
  "radius (player (resetWorld d s)) = js_round (canvasWidth s / 20)"
  "length (platforms (resetWorld d s)) = 2"
  by (simp_all add: resetWorld_def Let_def)

lemma resetWorld_platforms:
  "\<exists>p0. platforms (resetWorld d s) = [p0, generateNextPlatform d s p0] \<and>
        (0 \<le> canvasWidth s \<and> 0 \<le> canvasHeight s \<longrightarrow> shape_ok s p0)"
  using first_platform_shape [of s] by (simp add: resetWorld_def Let_def)

lemma resetWorld_lookups:
  "at_index (platforms (resetWorld d s)) (currentPlatformId (resetWorld d s)) \<noteq> None \<and>
   at_index (platforms (resetWorld d s)) (targetPlatformId (resetWorld d s)) \<noteq> None"
  by (simp add: at_index_def)

lemma restartGame_world:
  "\<exists>current target. platforms (restartGame d s) = [current, target] \<and>
     at_index (platforms (restartGame d s)) (currentPlatformId (restartGame d s)) = Some current \<and>
     at_index (platforms (restartGame d s)) (targetPlatformId (restartGame d s)) = Some target"
  by (simp add: restartGame_def resetWorld_def Let_def at_index_def)

lemma integrate_fields [simp]:
  "platforms (integrate dt s) = platforms s"
  "currentPlatformId (integrate dt s) = currentPlatformId s"
  "targetPlatformId (integrate dt s) = targetPlatformId s"
  "canvasWidth (integrate dt s) = canvasWidth s"
  "canvasHeight (integrate dt s) = canvasHeight s"
  "gameStarted (integrate dt s) = gameStarted s"
  "gameOver (integrate dt s) = gameOver s"
  "ctx (integrate dt s) = ctx s"
  "score (integrate dt s) = score s"
  "radius (player (integrate dt s)) = radius (player s)"
  "onGround (player (integrate dt s)) = onGround (player s)"
  by (simp_all add: integrate_def Let_def)

lemma recenterWorld_fields:
  "gameOver (state_of (recenterWorld s)) = gameOver s"
  "gameStarted (state_of (recenterWorld s)) = gameStarted s"
  "ctx (state_of (recenterWorld s)) = ctx s"
  "score (state_of (recenterWorld s)) = score s"
  "canvasWidth (state_of (recenterWorld s)) = canvasWidth s"
  "canvasHeight (state_of (recenterWorld s)) = canvasHeight s"
  "isPressing (state_of (recenterWorld s)) = isPressing s"
  "ycoord (pposition (player (state_of (recenterWorld s)))) = ycoord (pposition (player s))"
  "radius (player (state_of (recenterWorld s))) = radius (player s)"
  "onGround (player (state_of (recenterWorld s))) = onGround (player s)"
  "velocity (player (state_of (recenterWorld s))) = velocity (player s)"
  by (simp_all add: recenterWorld_def Let_def split: option.splits)

lemma recenterWorld_ids:
  "targetPlatformId s = currentPlatformId s + 1 \<Longrightarrow>
   targetPlatformId (state_of (recenterWorld s)) = currentPlatformId (state_of (recenterWorld s)) + 1"
  by (simp add: recenterWorld_def Let_def split: option.splits)

lemma recenterWorld_length:
  "length (platforms (state_of (recenterWorld s))) = length (platforms s) \<or>
   length (platforms (state_of (recenterWorld s))) = 6"
  by (auto simp: recenterWorld_def Let_def split: option.splits)

lemma land_fields:
  "gameOver (state_of (land d t s)) = gameOver s"
  "gameStarted (state_of (land d t s)) = gameStarted s"
  "canvasHeight (state_of (land d t s)) = canvasHeight s"
  "score (state_of (land d t s)) = score s + 1"
  "ycoord (pposition (player (state_of (land d t s)))) = ycoord (pposition (player s))"
  "radius (player (state_of (land d t s))) = radius (player s)"
  "onGround (player (state_of (land d t s)))"
  "velocity (player (state_of (land d t s))) = \<lparr>xcoord = 0, ycoord = 0\<rparr>"
  by (simp_all add: land_def recenterWorld_fields)

lemma land_ids:
  "targetPlatformId (state_of (land d t s)) = currentPlatformId (state_of (land d t s)) + 1"
  unfolding land_def by (rule recenterWorld_ids) simp

lemma land_length:
  "length (platforms (state_of (land d t s))) = length (platforms s) + 1 \<or>
   length (platforms (state_of (land d t s))) = 6"
  using recenterWorld_length [of "s\<lparr>player := (player s)\<lparr>onGround := True, velocity := \<lparr>xcoord = 0, ycoord = 0\<rparr>\<rparr>,
          currentPlatformId := pid t,
          targetPlatformId := pid t + 1,
          platforms := platforms s @ [generateNextPlatform d s t],
          score := score s + 1\<rparr>"]
  by (simp add: land_def)

lemma land_fellBelow: "fellBelow (state_of (land d t s)) = fellBelow s"
  by (simp add: fellBelow_def land_fields)

lemma missCheck_fields [simp]:
  "platforms (missCheck s) = platforms s"
  "currentPlatformId (missCheck s) = currentPlatformId s"
  "targetPlatformId (missCheck s) = targetPlatformId s"
  "player (missCheck s) = player s"
  "score (missCheck s) = score s"
  "gameOver (missCheck s) = (gameOver s \<or> fellBelow s)"
  by (simp_all add: missCheck_def endGame_def)

lemma draw_state [simp]: "state_of (draw s) = s"
  by (simp add: draw_def split: option.splits)

lemma update_landing:
  assumes "ctx s" "\<not> onGround (player s)"
    "at_index (platforms s) (targetPlatformId s) = Some target"
    "checkLanding (integrate dt s) target"
  shows "state_of (update dt d s) = state_of (land d target (integrate dt s)) \<or>
         state_of (update dt d s) = missCheck (state_of (land d target (integrate dt s)))"
proof (cases "land d target (integrate dt s)")
  case (Inl f)
  then show ?thesis using assms by (cases f) (simp add: update_def Let_def)
next
  case (Inr s2)
  then show ?thesis using assms by (simp add: update_def Let_def)
qed

lemma update_landing_done:
  assumes "ctx s" "\<not> onGround (player s)"
    "at_index (platforms s) (targetPlatformId s) = Some target"
    "checkLanding (integrate dt s) target"
    "update dt d s = Inr s'"
  shows "s' = missCheck (state_of (land d target (integrate dt s)))"
proof (cases "land d target (integrate dt s)")
  case (Inl f)
  then show ?thesis using assms by (cases f) (simp add: update_def Let_def)
next
  case (Inr s2)
  have "state_of (update dt d s) = missCheck s2"
    using assms(1-4) Inr by (simp add: update_def Let_def)
  then show ?thesis using assms(5) Inr by simp
qed

lemma update_airborne_done:
  assumes "ctx s" "\<not> onGround (player s)"
    "at_index (platforms s) (targetPlatformId s) = Some target"
    "\<not> checkLanding (integrate dt s) target"
  shows "state_of (update dt d s) = missCheck (integrate dt s)"
  using assms by (simp add: update_def Let_def)

lemma onTouchEnd_noop:
  "\<not> (gameStarted s \<and> \<not> gameOver s \<and> isPressing s) \<Longrightarrow> onTouchEnd now s = Inr s"
  by (auto simp: onTouchEnd_def)

lemma onTouchEnd_launch:
  assumes "gameStarted s" "\<not> gameOver s" "isPressing s"
    and "at_index (platforms s) (currentPlatformId s) = Some current"
    and "at_index (platforms s) (targetPlatformId s) = Some target"
  shows "onTouchEnd now s =
     Inr (s\<lparr>isPressing := False,
            player := (player s)
              \<lparr>onGround := False,
               velocity :=
                 \<lparr>xcoord = (xcoord (position target) - xcoord (position current))
                     / max 1 (hypot (xcoord (position target) - xcoord (position current))
                                    (ycoord (position target) - ycoord (position current)))
                     * (min (real_of_int (now - pressStartTime s) / 1000) (12 / 10)
                          * chargeFactor * canvasWidth s)
                     * horizontalFactor,
                  ycoord = (ycoord (position target) - ycoord (position current))
                     / max 1 (hypot (xcoord (position target) - xcoord (position current))
                                    (ycoord (position target) - ycoord (position current)))
                     * (min (real_of_int (now - pressStartTime s) / 1000) (12 / 10)
                          * chargeFactor * canvasWidth s)
                     * (4 / 10)
                     - min (real_of_int (now - pressStartTime s) / 1000) (12 / 10)
                          * chargeFactor * canvasWidth s * (8 / 10)\<rparr>\<rparr>\<rparr>)"
  using assms by (simp add: onTouchEnd_def Let_def)

section \<open>The invariant holds in every reachable state\<close>

lemma resetWorld_inv:
  assumes "valid_draws d"
  shows "session_inv (resetWorld d s)"
proof -
  obtain p0 where ps: "platforms (resetWorld d s) = [p0, generateNextPlatform d s p0]"
    and p0: "0 \<le> canvasWidth s \<and> 0 \<le> canvasHeight s \<longrightarrow> shape_ok s p0"
    using resetWorld_platforms by blast
  have sh: "shape_ok (resetWorld d s) p = shape_ok s p" for p
    by (rule shape_ok_dims) simp_all
  show ?thesis
    unfolding session_inv_def using p0 generate_shape [OF assms, of s p0]
    by (simp add: ps sh)
qed

lemma recenterWorld_inv:
  assumes "session_inv s" "platforms s \<noteq> []"
  shows "session_inv (state_of (recenterWorld s))"
proof (cases "at_index (platforms s) (currentPlatformId s)")
  case None
  then show ?thesis using assms by (simp add: recenterWorld_def Let_def)
next
  case (Some current)
  let ?dx = "js_round (canvasWidth s * (3 / 10)) - xcoord (position current)"
  show ?thesis
  proof (cases "?dx = 0")
    case True
    then show ?thesis using assms Some by (simp add: recenterWorld_def Let_def)
  next
    case False
    let ?ps = "map (shiftX ?dx) (platforms s)"
    have sub: "set (drop (length ?ps - 6) ?ps) \<subseteq> set ?ps" by (rule set_drop_subset)
    have all: "0 \<le> canvasWidth s \<and> 0 \<le> canvasHeight s \<Longrightarrow> \<forall>p \<in> set ?ps. shape_ok s p"
      using assms(1) by (auto simp: session_inv_def)
    show ?thesis
      using assms Some False sub all
      by (auto simp: recenterWorld_def Let_def session_inv_def shape_ok_def)
  qed
qed

lemma integrate_inv: "session_inv s \<Longrightarrow> gameStarted s \<or> \<not> ctx s \<Longrightarrow> session_inv (integrate dt s)"
  by (simp add: session_inv_def shape_ok_def)

lemma land_inv:
  assumes "session_inv s" "valid_draws d" "target \<in> set (platforms s)"
  shows "session_inv (state_of (land d target s))"
proof -
  let ?s2 = "s\<lparr>player := (player s)\<lparr>onGround := True, velocity := \<lparr>xcoord = 0, ycoord = 0\<rparr>\<rparr>,
          currentPlatformId := pid target,
          targetPlatformId := pid target + 1,
          platforms := platforms s @ [generateNextPlatform d s target],
          score := score s + 1\<rparr>"
  have ne: "platforms s \<noteq> []" using assms(3) by auto
  have "session_inv ?s2"
    using assms(1) ne generate_shape [OF assms(2), of s target]
    by (auto simp: session_inv_def shape_ok_def)
  then have "session_inv (state_of (recenterWorld ?s2))"
    by (rule recenterWorld_inv) simp
  then show ?thesis by (simp add: land_def)
qed

lemma missCheck_inv: "session_inv s \<Longrightarrow> session_inv (missCheck s)"
  by (simp add: missCheck_def endGame_def session_inv_def shape_ok_def)

lemma update_inv:
  assumes "session_inv s" "valid_draws d"
  shows "session_inv (state_of (update dt d s))"
proof (cases "ctx s \<and> \<not> onGround (player s)")
  case False
  then show ?thesis using assms by (auto simp: update_def)
next
  case True
  then have started: "gameStarted s" using assms(1) by (auto simp: session_inv_def)
  have i1: "session_inv (integrate dt s)" using assms(1) started by (simp add: integrate_inv)
  show ?thesis
  proof (cases "at_index (platforms s) (targetPlatformId s)")
    case None
    then show ?thesis using True i1 by (simp add: update_def Let_def)
  next
    case (Some target)
    have mem: "target \<in> set (platforms (integrate dt s))"
      using Some by (simp add: at_index_mem)
    show ?thesis
    proof (cases "checkLanding (integrate dt s) target")
      case False
      then show ?thesis
        using True Some i1 by (simp add: update_def Let_def missCheck_inv)
    next
      case landing: True
      have l: "session_inv (state_of (land d target (integrate dt s)))"
        using i1 assms(2) mem by (rule land_inv)
      show ?thesis
      proof (cases "land d target (integrate dt s)")
        case (Inl f)
        then show ?thesis
          using True Some landing l by (cases f) (simp add: update_def Let_def)
      next
        case (Inr s2)
        then show ?thesis
          using True Some landing l by (simp add: update_def Let_def missCheck_inv)
      qed
    qed
  qed
qed

lemma onTouchStart_inv: "session_inv s \<Longrightarrow> session_inv (onTouchStart now s)"
  by (simp add: onTouchStart_def session_inv_def shape_ok_def)

lemma onTouchEnd_inv: "session_inv s \<Longrightarrow> session_inv (state_of (onTouchEnd now s))"
  by (auto simp: onTouchEnd_def Let_def session_inv_def shape_ok_def split: option.splits)

lemma startGame_inv: "session_inv s \<Longrightarrow> valid_draws d \<Longrightarrow> session_inv (startGame d s)"
  by (simp add: startGame_def resetWorld_inv)

lemma restartGame_inv: "valid_draws d \<Longrightarrow> session_inv (restartGame d s)"
  by (simp add: restartGame_def resetWorld_inv)

lemma canvasReady_inv: "valid_draws d \<Longrightarrow> session_inv (canvasReady d s)"
  by (simp add: canvasReady_def resetWorld_inv)

lemma step_inv: "session_inv s \<Longrightarrow> valid_event e \<Longrightarrow> session_inv (state_of (step e s))"
  by (cases e)
    (simp_all add: canvasReady_inv startGame_inv restartGame_inv onTouchStart_inv
      onTouchEnd_inv update_inv)

lemma reachable_inv: "reachable s \<Longrightarrow> session_inv s"
proof (induction rule: reachable.induct)
  case (reach_load w h)
  show ?case by (simp add: session_inv_def initCanvas_def initial_def)
next
  case (reach_step s e)
  then show ?case by (simp add: step_inv)
qed

section \<open>Platform ids in runs without a throw\<close>

lemma ids_from_nth: "ids_from k ps \<Longrightarrow> i < length ps \<Longrightarrow> pid (ps ! i) = k + int i"
proof -
  assume a: "ids_from k ps" "i < length ps"
  have "pid (ps ! i) = map pid ps ! i" using a(2) by simp
  also have "\<dots> = map (\<lambda>i. k + int i) [0..<length ps] ! i" using a(1) by (simp add: ids_from_def)
  also have "\<dots> = k + int i" using a(2) by simp
  finally show ?thesis .
qed

lemma ids_from_increasing: "ids_from k ps \<Longrightarrow> sorted_wrt (<) (map pid ps)"
  by (simp add: ids_from_def sorted_wrt_map sorted_wrt_upt)

lemma ids_from_shift [simp]: "ids_from k (map (shiftX dx) ps) = ids_from k ps"
  by (simp add: ids_from_def shiftX_def comp_def)

lemma ids_from_snoc:
  "ids_from k ps \<Longrightarrow> pid p = k + int (length ps) \<Longrightarrow> ids_from k (ps @ [p])"
  by (simp add: ids_from_def)

lemma ids_from_drop:
  assumes "ids_from k ps" "n \<le> length ps"
  shows "ids_from (k + int n) (drop n ps)"
  unfolding ids_from_def
proof (rule nth_equalityI)
  show "length (map pid (drop n ps))
      = length (map (\<lambda>i. k + int n + int i) [0..<length (drop n ps)])"
    by simp
next
  fix i
  assume "i < length (map pid (drop n ps))"
  then have i: "n + i < length ps" "i < length ps - n" by simp_all
  have "pid (ps ! (n + i)) = k + int (n + i)"
    using assms(1) i(1) by (rule ids_from_nth)
  then show "map pid (drop n ps) ! i
      = map (\<lambda>i. k + int n + int i) [0..<length (drop n ps)] ! i"
    using i assms(2) by simp
qed

lemma ids_from_at_index:
  "ids_from k ps \<Longrightarrow> at_index ps i = Some p \<Longrightarrow> pid p = k + i"
  by (auto simp: at_index_def ids_from_nth split: if_splits)

lemma recenterWorld_ids_inv:
  assumes "ids_from 0 (platforms s)" "2 \<le> length (platforms s)"
    "targetPlatformId s = int (length (platforms s)) - 1"
    "currentPlatformId s = targetPlatformId s - 1"
    "recenterWorld s = Inr s'"
  shows "ids_inv s'"
proof -
  obtain current where cur: "at_index (platforms s) (currentPlatformId s) = Some current"
    using assms(2-4) by (auto simp: at_index_def)
  let ?dx = "js_round (canvasWidth s * (3 / 10)) - xcoord (position current)"
  show ?thesis
  proof (cases "?dx = 0")
    case True
    then have "s' = s" using assms(5) cur by (simp add: recenterWorld_def Let_def)
    then show ?thesis using assms(1-4) by (simp add: ids_inv_def)
  next
    case False
    let ?ps = "map (shiftX ?dx) (platforms s)"
    show ?thesis
    proof (cases "length (platforms s) > 8")
      case short: False
      then have "platforms s' = ?ps \<and> currentPlatformId s' = currentPlatformId s \<and>
          targetPlatformId s' = targetPlatformId s"
        using assms(5) cur False by (auto simp: recenterWorld_def Let_def)
      then show ?thesis using assms(1-4) by (simp add: ids_inv_def)
    next
      case long: True
      let ?n = "length (platforms s) - 6"
      let ?kept = "drop ?n ?ps"
      have s': "platforms s' = ?kept \<and> currentPlatformId s' = pid (hd ?kept) \<and>
          targetPlatformId s' = pid (hd ?kept) + 1"
        using assms(5) cur False long by (auto simp: recenterWorld_def Let_def)
      have seq: "ids_from (0 + int ?n) ?kept"
        using assms(1) by (intro ids_from_drop) simp_all
      have len: "length ?kept = 6" using long by simp
      have "hd ?kept = ?kept ! 0" using len by (intro hd_conv_nth) auto
      then have hd: "pid (hd ?kept) = int ?n"
        using ids_from_nth [OF seq, of 0] len by simp
      show ?thesis
        using s' seq len hd long by (simp add: ids_inv_def)
    qed
  qed
qed

lemma land_ids_inv:
  assumes "ids_inv s" "at_index (platforms s) (targetPlatformId s) = Some target"
    "land d target s = Inr s'"
  shows "ids_inv s'"
proof -
  let ?s2 = "s\<lparr>player := (player s)\<lparr>onGround := True, velocity := \<lparr>xcoord = 0, ycoord = 0\<rparr>\<rparr>,
          currentPlatformId := pid target,
          targetPlatformId := pid target + 1,
          platforms := platforms s @ [generateNextPlatform d s target],
          score := score s + 1\<rparr>"
  have rc: "recenterWorld ?s2 = Inr s'" using assms(3) by (simp add: land_def)
  have ne: "platforms s \<noteq> []" using assms(2) by (rule at_index_nonempty)
  from assms(1) ne consider
    (fresh) "ids_from 0 (platforms s)" "2 \<le> length (platforms s)"
      "targetPlatformId s = int (length (platforms s)) - 1"
      "currentPlatformId s = targetPlatformId s - 1"
  | (trimmed) "ids_from (currentPlatformId s) (platforms s)" "length (platforms s) = 6"
      "targetPlatformId s = currentPlatformId s + 1" "3 \<le> currentPlatformId s"
    by (auto simp: ids_inv_def)
  then show ?thesis
  proof cases
    case fresh
    have t: "pid target = int (length (platforms s)) - 1"
      using ids_from_at_index [OF fresh(1) assms(2)] fresh(3) by simp
    have "ids_from 0 (platforms ?s2)"
      using fresh(1) t by (simp add: ids_from_snoc)
    then show ?thesis
      using fresh t rc by (intro recenterWorld_ids_inv [of ?s2]) simp_all
  next
    case trimmed
    have t: "pid target = currentPlatformId s + (currentPlatformId s + 1)"
      using ids_from_at_index [OF trimmed(1) assms(2)] trimmed(3) by simp
    have "at_index (platforms ?s2) (currentPlatformId ?s2) = None"
      using t trimmed(2,4) by (simp add: at_index_def)
    then have "recenterWorld ?s2 = Inl (TypeError, ?s2)"
      by (simp add: recenterWorld_def Let_def)
    then show ?thesis using rc by simp
  qed
qed

lemma update_ids_inv:
  assumes "ids_inv s" "update dt d s = Inr s'"
  shows "ids_inv s'"
proof (cases "ctx s \<and> \<not> onGround (player s)")
  case False
  then have "state_of (update dt d s) = s" by (auto simp: update_def)
  then show ?thesis using assms by simp
next
  case True
  show ?thesis
  proof (cases "at_index (platforms s) (targetPlatformId s)")
    case None
    then show ?thesis using True assms(2) by (simp add: update_def Let_def)
  next
    case (Some target)
    show ?thesis
    proof (cases "checkLanding (integrate dt s) target")
      case False
      have "state_of (update dt d s) = missCheck (integrate dt s)"
        using True Some False by (intro update_airborne_done) auto
      then have "s' = missCheck (integrate dt s)" using assms(2) by simp
      then show ?thesis using assms(1) by (simp add: ids_inv_def)
    next
      case landing: True
      have s': "s' = missCheck (state_of (land d target (integrate dt s)))"
        using True Some landing assms(2) by (intro update_landing_done) auto
      obtain s2 where s2: "land d target (integrate dt s) = Inr s2"
        using True Some landing assms(2)
        by (cases "land d target (integrate dt s)") (auto simp: update_def Let_def)
      have "ids_inv (integrate dt s)" using assms(1) by (simp add: ids_inv_def)
      then have "ids_inv s2"
        using Some s2 by (intro land_ids_inv [of "integrate dt s" target d s2]) simp_all
      then show ?thesis using s' s2 by (simp add: ids_inv_def)
    qed
  qed
qed

lemma resetWorld_ids_inv: "ids_inv (resetWorld d s)"
  by (simp add: ids_inv_def ids_from_def resetWorld_def Let_def)

lemma onTouchEnd_ids_inv: "ids_inv s \<Longrightarrow> onTouchEnd now s = Inr s' \<Longrightarrow> ids_inv s'"
  by (auto simp: onTouchEnd_def Let_def ids_inv_def split: if_splits option.splits)

lemma step_ids_inv: "ids_inv s \<Longrightarrow> step e s = Inr s' \<Longrightarrow> ids_inv s'"
proof (cases e)
  case (CanvasReady d)
  assume "step e s = Inr s'"
  then show ?thesis using CanvasReady by (auto simp: canvasReady_def resetWorld_ids_inv)
next
  case (StartGame d)
  assume "ids_inv s" "step e s = Inr s'"
  then show ?thesis using StartGame by (auto simp: startGame_def resetWorld_ids_inv split: if_splits)
next
  case (RestartGame d)
  assume "step e s = Inr s'"
  then show ?thesis using RestartGame by (auto simp: restartGame_def resetWorld_ids_inv)
next
  case (TouchStart now)
  assume "ids_inv s" "step e s = Inr s'"
  then show ?thesis using TouchStart by (auto simp: onTouchStart_def ids_inv_def split: if_splits)
next
  case (TouchEnd now)
  assume "ids_inv s" "step e s = Inr s'"
  then show ?thesis using TouchEnd by (auto intro: onTouchEnd_ids_inv)
next
  case (Tick dt d)
  assume "ids_inv s" "step e s = Inr s'"
  then show ?thesis using Tick by (auto intro: update_ids_inv)
qed

lemma completes_ids_inv: "completes s \<Longrightarrow> ids_inv s"
proof (induction rule: completes.induct)
  case (completes_load w h)
  show ?case by (simp add: ids_inv_def initCanvas_def initial_def)
next
  case (completes_step s e s')
  then show ?case by (auto intro: step_ids_inv)
qed

lemma ids_increasing_without_throw: "completes s \<Longrightarrow> sorted_wrt (<) (map pid (platforms s))"
  using completes_ids_inv [of s] by (auto simp: ids_inv_def ids_from_increasing)

section \<open>Concrete runs\<close>

lemmas model_defs = initCanvas_def canvasReady_def startGame_def restartGame_def resetWorld_def
  generateNextPlatform_def platformDx_def onTouchStart_def onTouchEnd_def update_def
  integrate_def checkLanding_def land_def recenterWorld_def missCheck_def fellBelow_def
  endGame_def draw_def shiftX_def at_index_def palette_def randInt_def clamp_def js_round_def
  gravity_def chargeFactor_def horizontalFactor_def initial_def page400_def platform0_def
  draws_left_def draws_right_def wide_def hypot_zero Let_def

lemmas state_defs = started_left_def started_right_def pressed_right_def launched_right_def
  launched_left_def

lemma valid_draws_left: "valid_draws draws_left"
  by (simp add: valid_draws_def draws_left_def)

lemma valid_draws_right: "valid_draws draws_right"
  by (simp add: valid_draws_def draws_right_def)

lemma run_append:
  "run (es @ fs) s = (case run es s of Inl f \<Rightarrow> Inl f | Inr s' \<Rightarrow> run fs s')"
  by (induction es arbitrary: s) (auto split: sum.splits)

lemma reachable_run:
  "reachable s \<Longrightarrow> list_all valid_event es \<Longrightarrow> reachable (state_of (run es s))"
proof (induction es arbitrary: s)
  case Nil
  then show ?case by simp
next
  case (Cons e es)
  from Cons.prems have r: "reachable (state_of (step e s))"
    by (auto intro: reach_step)
  show ?case
  proof (cases "step e s")
    case (Inl f)
    then show ?thesis using r by (cases f) auto
  next
    case (Inr s')
    then show ?thesis using r Cons.prems Cons.IH [of s'] by simp
  qed
qed

lemma reachable_canvasReady: "reachable s \<Longrightarrow> valid_draws d \<Longrightarrow> reachable (canvasReady d s)"
  using reach_step [of s "CanvasReady d"] by simp

lemma reachable_startGame: "reachable s \<Longrightarrow> valid_draws d \<Longrightarrow> reachable (startGame d s)"
  using reach_step [of s "StartGame d"] by simp

lemma reachable_restartGame: "reachable s \<Longrightarrow> valid_draws d \<Longrightarrow> reachable (restartGame d s)"
  using reach_step [of s "RestartGame d"] by simp

lemma reachable_onTouchStart: "reachable s \<Longrightarrow> reachable (onTouchStart now s)"
  using reach_step [of s "TouchStart now"] by simp

lemma reachable_onTouchEnd: "reachable s \<Longrightarrow> reachable (state_of (onTouchEnd now s))"
  using reach_step [of s "TouchEnd now"] by simp

lemma reachable_update: "reachable s \<Longrightarrow> valid_draws d \<Longrightarrow> reachable (state_of (update dt d s))"
  using reach_step [of s "Tick dt d"] by simp

lemma page400_reachable: "reachable page400"
  unfolding page400_def by (rule reach_load)

lemma canvas_ready_reachable: "reachable (canvasReady draws_left page400)"
  by (intro reachable_canvasReady page400_reachable valid_draws_left)

lemma started_left_reachable: "reachable started_left"
  unfolding started_left_def
  by (intro reachable_startGame reachable_canvasReady page400_reachable valid_draws_left)

lemma started_right_reachable: "reachable started_right"
  unfolding started_right_def
  by (intro reachable_startGame reachable_canvasReady page400_reachable valid_draws_right)

lemma pressed_right_reachable: "reachable pressed_right"
  unfolding pressed_right_def by (intro reachable_onTouchStart started_right_reachable)

lemma launched_right_reachable: "reachable launched_right"
  unfolding launched_right_def by (intro reachable_onTouchEnd pressed_right_reachable)

lemma launched_left_reachable: "reachable launched_left"
  unfolding launched_left_def
  by (intro reachable_onTouchEnd reachable_onTouchStart started_left_reachable)

lemma launched_left_facts:
  "ctx launched_left" "\<not> onGround (player launched_left)"
  "at_index (platforms launched_left) (targetPlatformId launched_left) = Some (wide 1 72)"
  "canvasWidth launched_left = 400" "canvasHeight launched_left = 800"
  "\<not> gameOver launched_left"
  by (simp_all add: state_defs model_defs)

lemma launched_right_facts:
  "ctx launched_right" "\<not> onGround (player launched_right)"
  "at_index (platforms launched_right) (targetPlatformId launched_right) = Some (wide 1 208)"
  by (simp_all add: state_defs model_defs)

lemma landing_tick: "update (1 / 40) draws_right launched_left = Inr landed_left"
  by (simp add: landed_left_def state_defs model_defs)

lemma landing_tick_check: "checkLanding (integrate (1 / 40) launched_left) (wide 1 72)"
  by (simp add: state_defs model_defs)

lemma airborne_tick:
  "update (33 / 1000) draws_right launched_right = Inr (integrate (33 / 1000) launched_right)"
  by (simp add: state_defs model_defs)

lemma pre_evict_trace_run: "run pre_evict_trace page400 = Inr pre_evicted"
  by (simp add: pre_evict_trace_def pre_evicted_def tap_def model_defs)

lemma pre_evicted_reachable: "reachable pre_evicted"
proof -
  have "list_all valid_event pre_evict_trace"
    by (simp add: pre_evict_trace_def tap_def valid_draws_left valid_draws_right)
  from reachable_run [OF page400_reachable this] show ?thesis
    by (simp only: pre_evict_trace_run state_of.simps)
qed

lemma eviction_tick: "update (1 / 40) draws_right pre_evicted = Inr evicted"
  by (simp add: pre_evicted_def evicted_def model_defs)

lemma evicted_reachable: "reachable evicted"
  using reach_step [OF pre_evicted_reachable, of "Tick (1 / 40) draws_right"]
  by (simp add: eviction_tick valid_draws_right)

lemma tap_after_eviction: "run (tap 8000 draws_left) evicted = Inl (TypeError, faulted)"
  by (simp add: evicted_def faulted_def tap_def model_defs)

lemma faulted_reachable: "reachable faulted"
proof -
  have "list_all valid_event (tap 8000 draws_left)"
    by (simp add: tap_def valid_draws_left)
  from reachable_run [OF evicted_reachable this] show ?thesis
    by (simp only: tap_after_eviction state_of.simps)
qed

lemma fall_trace_run: "run fall_trace page400 = Inr fallen"
  by (simp add: fall_trace_def fall_tick_def fallen_def model_defs)

lemma fallen_reachable: "reachable fallen"
proof -
  have "list_all valid_event fall_trace"
    by (simp add: fall_trace_def fall_tick_def valid_draws_right)
  from reachable_run [OF page400_reachable this] show ?thesis
    by (simp only: fall_trace_run state_of.simps)
qed

lemma platformDx_right_400: "platformDx draws_right page400 = 88"
  by (simp add: platformDx_def page400_def initCanvas_def initial_def draws_right_def randInt_def js_round_def)

lemma gen_left_400:
  "generateNextPlatform draws_left page400 platform0 =
     \<lparr>pid = 1, position = \<lparr>xcoord = 72, ycoord = 560\<rparr>,
      psize = \<lparr>xcoord = 112, ycoord = 31\<rparr>, color = Some ''#4ecca3''\<rparr>"
  by (simp add: generateNextPlatform_def platformDx_def page400_def initCanvas_def initial_def platform0_def
      draws_left_def randInt_def clamp_def js_round_def at_index_def palette_def Let_def)

section \<open>The claims\<close>

subsection \<open>C1: no handler throws\<close>

text \<open>
  Claim C1 says that in every reachable state every handler runs to completion and every
  lookup by \<open>currentPlatformId\<close> or \<open>targetPlatformId\<close> finds a platform. The code breaks
  this after the first eviction: \<^verbatim>\<open>recenterWorld\<close> keeps the last six platforms (ids 3 to 8)
  and sets \<open>currentPlatformId\<close> to the id 3 of the first of them, but the lookups use the id
  as an array index. In the state \<open>evicted\<close>, reached by seven landings, index 4 is the
  platform with id 7, on which the player stands. One more tap lands on it again, sets
  \<open>currentPlatformId\<close> to 7 in an array of seven entries, and \<^verbatim>\<open>recenterWorld\<close> throws on
  the \<^verbatim>\<open>undefined\<close> lookup inside \<^verbatim>\<open>update\<close>. In the state this leaves, \<open>faulted\<close>, the next
  press-release throws as well.
\<close>

theorem tick_throws_after_eviction:
  "reachable evicted \<and>
   run [TouchStart 8000, TouchEnd 8025] evicted = Inr relaunched \<and>
   step (Tick (1 / 40) draws_left) relaunched = Inl (TypeError, faulted) \<and>
   at_index (platforms faulted) (currentPlatformId faulted) = None \<and>
   reachable faulted \<and>
   run [TouchStart 9000, TouchEnd 9025] faulted
     = Inl (TypeError, faulted\<lparr>pressStartTime := 9000\<rparr>)"
proof -
  have "run [TouchStart 8000, TouchEnd 8025] evicted = Inr relaunched"
    by (simp add: evicted_def relaunched_def model_defs)
  moreover have "step (Tick (1 / 40) draws_left) relaunched = Inl (TypeError, faulted)"
    by (simp add: relaunched_def evicted_def faulted_def model_defs)
  moreover have "at_index (platforms faulted) (currentPlatformId faulted) = None"
    by (simp add: faulted_def at_index_def)
  moreover have "run [TouchStart 9000, TouchEnd 9025] faulted
     = Inl (TypeError, faulted\<lparr>pressStartTime := 9000\<rparr>)"
    by (simp add: faulted_def model_defs)
  ultimately show ?thesis
    using evicted_reachable faulted_reachable by simp
qed

subsection \<open>C2: ticks outside a playing session\<close>

text \<open>
  Claim C2, as amended. \<^verbatim>\<open>update\<close> looks at \<open>onGround\<close> only, never at the session flags.
  A tick leaves the player's position and velocity unchanged whenever the player is
  grounded, which covers every tick before the session is started; on an airborne player
  that does not land, a tick performs the physics step whatever the session flags are, so
  the player keeps falling after the game is over.
\<close>

theorem tick_physics_gate:
  assumes "reachable s"
  shows "(\<not> gameStarted s \<or> onGround (player s) \<longrightarrow>
            pposition (player (state_of (update dt d s))) = pposition (player s) \<and>
            velocity (player (state_of (update dt d s))) = velocity (player s)) \<and>
         (ctx s \<and> \<not> onGround (player s) \<and>
          at_index (platforms s) (targetPlatformId s) = Some target \<and>
          \<not> checkLanding (integrate dt s) target \<longrightarrow>
            player (state_of (update dt d s)) = player (integrate dt s))"
proof -
  have inv: "session_inv s" using assms by (rule reachable_inv)
  have idle: "\<not> gameStarted s \<Longrightarrow> \<not> ctx s \<or> onGround (player s)"
    using inv by (auto simp: session_inv_def)
  have still: "\<not> ctx s \<or> onGround (player s) \<Longrightarrow> state_of (update dt d s) = s"
    by (auto simp: update_def)
  show ?thesis
    using idle still update_airborne_done [of s target dt d] by auto
qed

text \<open>
  Both parts at concrete states: the idle page after the canvas is ready, and the fallen
  player after game over.
\<close>

theorem tick_physics_gate_witness:
  "reachable (canvasReady draws_left page400) \<and>
   \<not> gameStarted (canvasReady draws_left page400) \<and>
   pposition (player (state_of (update (1 / 40) draws_left (canvasReady draws_left page400))))
     = pposition (player (canvasReady draws_left page400)) \<and>
   velocity (player (state_of (update (1 / 40) draws_left (canvasReady draws_left page400))))
     = velocity (player (canvasReady draws_left page400)) \<and>
   reachable fallen \<and> ctx fallen \<and> \<not> onGround (player fallen) \<and>
   at_index (platforms fallen) (targetPlatformId fallen) = Some (wide 1 208) \<and>
   \<not> checkLanding (integrate (33 / 1000) fallen) (wide 1 208) \<and>
   player (state_of (update (33 / 1000) draws_right fallen))
     = player (integrate (33 / 1000) fallen)"
proof -
  have idle: "\<not> gameStarted (canvasReady draws_left page400)"
    by (simp add: model_defs)
  have air: "ctx fallen \<and> \<not> onGround (player fallen) \<and>
      at_index (platforms fallen) (targetPlatformId fallen) = Some (wide 1 208) \<and>
      \<not> checkLanding (integrate (33 / 1000) fallen) (wide 1 208)"
    by (simp add: fallen_def model_defs)
  show ?thesis
    using tick_physics_gate [OF canvas_ready_reachable,
        of "1 / 40" draws_left "wide 1 208"]
      tick_physics_gate [OF fallen_reachable, of "33 / 1000" draws_right "wide 1 208"]
      canvas_ready_reachable fallen_reachable idle air
    by simp
qed

text \<open>
  Claim C2 as stated fails: \<open>fallen\<close> is reachable and over, and one more tick of 33 ms
  changes the player's position and velocity.
\<close>

theorem tick_physics_gate_counterexample:
  "reachable fallen \<and> gameStarted fallen \<and> gameOver fallen \<and>
   pposition (player (state_of (update (33 / 1000) draws_right fallen)))
     \<noteq> pposition (player fallen) \<and>
   velocity (player (state_of (update (33 / 1000) draws_right fallen)))
     \<noteq> velocity (player fallen)"
  using fallen_reachable by (simp add: fallen_def model_defs)

subsection \<open>C3: when a press-release launches\<close>

text \<open>
  Claim C3, as amended. Neither handler looks at \<open>onGround\<close>. A press-start never changes
  the player. A press-release is a no-op unless the session is playing and a press is
  pending; when it is playing, a press is pending and both platform lookups succeed, the
  release clears \<open>isPressing\<close> and \<open>onGround\<close> and sets the velocity to the launch velocity
  \<open>(dir.x * power * horizontalFactor, dir.y * power * 0.4 - power * 0.8)\<close> of the press
  duration, whether the player was grounded or airborne, and changes nothing else.
\<close>

theorem press_release_gate:
  "player (onTouchStart now s) = player s \<and>
   (\<not> (gameStarted s \<and> \<not> gameOver s \<and> isPressing s) \<longrightarrow> onTouchEnd now s = Inr s) \<and>
   (gameStarted s \<and> \<not> gameOver s \<and> isPressing s \<and>
    at_index (platforms s) (currentPlatformId s) = Some current \<and>
    at_index (platforms s) (targetPlatformId s) = Some target \<longrightarrow>
      onTouchEnd now s =
        Inr (s\<lparr>isPressing := False,
               player := (player s)
                 \<lparr>onGround := False,
                  velocity :=
                    \<lparr>xcoord = (xcoord (position target) - xcoord (position current))
                        / max 1 (hypot (xcoord (position target) - xcoord (position current))
                                       (ycoord (position target) - ycoord (position current)))
                        * (min (real_of_int (now - pressStartTime s) / 1000) (12 / 10)
                             * chargeFactor * canvasWidth s)
                        * horizontalFactor,
                     ycoord = (ycoord (position target) - ycoord (position current))
                        / max 1 (hypot (xcoord (position target) - xcoord (position current))
                                       (ycoord (position target) - ycoord (position current)))
                        * (min (real_of_int (now - pressStartTime s) / 1000) (12 / 10)
                             * chargeFactor * canvasWidth s)
                        * (4 / 10)
                        - min (real_of_int (now - pressStartTime s) / 1000) (12 / 10)
                             * chargeFactor * canvasWidth s * (8 / 10)\<rparr>\<rparr>\<rparr>))"
proof -
  have a: "player (onTouchStart now s) = player s"
    by (simp add: onTouchStart_def)
  show ?thesis
    using a onTouchEnd_noop [of s now] onTouchEnd_launch [of s current target now] by blast
qed

theorem press_release_gate_witness:
  "player (onTouchStart 1000 started_right) = player started_right \<and>
   \<not> (gameStarted page400 \<and> \<not> gameOver page400 \<and> isPressing page400) \<and>
   onTouchEnd 1025 page400 = Inr page400 \<and>
   gameStarted pressed_right \<and> \<not> gameOver pressed_right \<and> isPressing pressed_right \<and>
   at_index (platforms pressed_right) (currentPlatformId pressed_right) = Some platform0 \<and>
   at_index (platforms pressed_right) (targetPlatformId pressed_right) = Some (wide 1 208) \<and>
   onGround (player pressed_right) \<and>
   velocity (player pressed_right) = \<lparr>xcoord = 0, ycoord = 0\<rparr> \<and>
   \<not> onGround (player (state_of (onTouchEnd 1025 pressed_right))) \<and>
   velocity (player (state_of (onTouchEnd 1025 pressed_right)))
     = \<lparr>xcoord = 126 / 5, ycoord = - (168 / 5)\<rparr>"
proof -
  have idle: "\<not> (gameStarted page400 \<and> \<not> gameOver page400 \<and> isPressing page400)"
    by (simp add: model_defs)
  have active: "gameStarted pressed_right \<and> \<not> gameOver pressed_right \<and>
      isPressing pressed_right \<and>
      at_index (platforms pressed_right) (currentPlatformId pressed_right) = Some platform0 \<and>
      at_index (platforms pressed_right) (targetPlatformId pressed_right) = Some (wide 1 208)"
    by (simp add: state_defs model_defs)
  have before: "onGround (player pressed_right) \<and>
      velocity (player pressed_right) = \<lparr>xcoord = 0, ycoord = 0\<rparr>"
    by (simp add: state_defs model_defs)
  have vals: "canvasWidth pressed_right = 400" "pressStartTime pressed_right = 1000"
    by (simp_all add: state_defs model_defs)
  have launch: "onTouchEnd 1025 pressed_right =
      Inr (pressed_right\<lparr>isPressing := False,
             player := (player pressed_right)
               \<lparr>onGround := False,
                velocity := \<lparr>xcoord = 126 / 5, ycoord = - (168 / 5)\<rparr>\<rparr>\<rparr>)"
    using press_release_gate [of 1025 pressed_right platform0 "wide 1 208"] active
    by (simp add: vals platform0_def wide_def hypot_zero chargeFactor_def horizontalFactor_def)
  show ?thesis
    using press_release_gate [of 1000 started_right] press_release_gate [of 1025 page400]
      idle active before launch
    by simp
qed

text \<open>
  Claim C3 as stated fails: \<open>launched_right\<close> is airborne in a playing session, and a second
  press of 300 ms replaces its velocity.
\<close>

theorem press_release_gate_counterexample:
  "reachable launched_right \<and> gameStarted launched_right \<and> \<not> gameOver launched_right \<and>
   \<not> onGround (player launched_right) \<and>
   velocity (player launched_right) = \<lparr>xcoord = 126 / 5, ycoord = - (168 / 5)\<rparr> \<and>
   velocity (player (state_of (onTouchEnd 1400 (onTouchStart 1100 launched_right))))
     = \<lparr>xcoord = 1512 / 5, ycoord = - (2016 / 5)\<rparr> \<and>
   velocity (player (state_of (onTouchEnd 1400 (onTouchStart 1100 launched_right))))
     \<noteq> velocity (player launched_right)"
  using launched_right_reachable by (simp add: state_defs model_defs)

subsection \<open>C4: a press that straddles a restart\<close>

text \<open>
  Claim C4, as amended. \<^verbatim>\<open>restartGame\<close> resets the player to zero velocity on the ground
  but leaves \<open>isPressing\<close> and \<open>pressStartTime\<close> as they are. A release after the restart is
  void if no press was pending (or the session was never started); if a press was pending
  in a started session, the release launches the freshly reset player: it clears
  \<open>onGround\<close> and sets the velocity to the launch velocity between the two platforms of the
  reset world, with the press duration measured from the press-start before the restart.
\<close>

theorem restart_keeps_pending_press:
  "velocity (player (restartGame d s)) = \<lparr>xcoord = 0, ycoord = 0\<rparr> \<and>
   onGround (player (restartGame d s)) \<and>
   isPressing (restartGame d s) = isPressing s \<and>
   pressStartTime (restartGame d s) = pressStartTime s \<and>
   (\<not> (gameStarted s \<and> isPressing s) \<longrightarrow>
      onTouchEnd now (restartGame d s) = Inr (restartGame d s)) \<and>
   (gameStarted s \<and> isPressing s \<longrightarrow>
      (\<exists>current target.
         platforms (restartGame d s) = [current, target] \<and>
         onTouchEnd now (restartGame d s) =
           Inr ((restartGame d s)\<lparr>isPressing := False,
                  player := (player (restartGame d s))
                    \<lparr>onGround := False,
                     velocity :=
                       \<lparr>xcoord = (xcoord (position target) - xcoord (position current))
                           / max 1 (hypot (xcoord (position target) - xcoord (position current))
                                          (ycoord (position target) - ycoord (position current)))
                           * (min (real_of_int (now - pressStartTime s) / 1000) (12 / 10)
                                * chargeFactor * canvasWidth s)
                           * horizontalFactor,
                        ycoord = (ycoord (position target) - ycoord (position current))
                           / max 1 (hypot (xcoord (position target) - xcoord (position current))
                                          (ycoord (position target) - ycoord (position current)))
                           * (min (real_of_int (now - pressStartTime s) / 1000) (12 / 10)
                                * chargeFactor * canvasWidth s)
                           * (4 / 10)
                           - min (real_of_int (now - pressStartTime s) / 1000) (12 / 10)
                                * chargeFactor * canvasWidth s * (8 / 10)\<rparr>\<rparr>\<rparr>)))"
proof -
  let ?r = "restartGame d s"
  have f: "gameStarted ?r = gameStarted s" "\<not> gameOver ?r" "isPressing ?r = isPressing s"
    "pressStartTime ?r = pressStartTime s" "onGround (player ?r)"
    "velocity (player ?r) = \<lparr>xcoord = 0, ycoord = 0\<rparr>" "canvasWidth ?r = canvasWidth s"
    by (simp_all add: restartGame_def)
  have noop: "onTouchEnd now ?r = Inr ?r" if "\<not> (gameStarted s \<and> isPressing s)"
    using that f(1,3) by (intro onTouchEnd_noop) simp
  obtain current target where w: "platforms ?r = [current, target]"
      "at_index (platforms ?r) (currentPlatformId ?r) = Some current"
      "at_index (platforms ?r) (targetPlatformId ?r) = Some target"
    using restartGame_world [of d s] by blast
  have launch: "onTouchEnd now ?r =
           Inr (?r\<lparr>isPressing := False,
                  player := (player ?r)
                    \<lparr>onGround := False,
                     velocity :=
                       \<lparr>xcoord = (xcoord (position target) - xcoord (position current))
                           / max 1 (hypot (xcoord (position target) - xcoord (position current))
                                          (ycoord (position target) - ycoord (position current)))
                           * (min (real_of_int (now - pressStartTime s) / 1000) (12 / 10)
                                * chargeFactor * canvasWidth s)
                           * horizontalFactor,
                        ycoord = (ycoord (position target) - ycoord (position current))
                           / max 1 (hypot (xcoord (position target) - xcoord (position current))
                                          (ycoord (position target) - ycoord (position current)))
                           * (min (real_of_int (now - pressStartTime s) / 1000) (12 / 10)
                                * chargeFactor * canvasWidth s)
                           * (4 / 10)
                           - min (real_of_int (now - pressStartTime s) / 1000) (12 / 10)
                                * chargeFactor * canvasWidth s * (8 / 10)\<rparr>\<rparr>\<rparr>)"
    if "gameStarted s" "isPressing s"
    using onTouchEnd_launch [OF _ f(2) _ w(2,3), of now] that f(1,3,4,7) by simp
  show ?thesis using f(5,6,3,4) noop launch w(1) by blast
qed

theorem restart_keeps_pending_press_witness:
  "\<not> (gameStarted started_right \<and> isPressing started_right) \<and>
   onTouchEnd 1300 (restartGame draws_right started_right)
     = Inr (restartGame draws_right started_right) \<and>
   gameStarted pressed_right \<and> isPressing pressed_right \<and>
   pressStartTime pressed_right = 1000 \<and>
   platforms (restartGame draws_right pressed_right) = [platform0, wide 1 208] \<and>
   velocity (player (restartGame draws_right pressed_right)) = \<lparr>xcoord = 0, ycoord = 0\<rparr> \<and>
   onGround (player (restartGame draws_right pressed_right)) \<and>
   \<not> onGround (player (state_of (onTouchEnd 1300 (restartGame draws_right pressed_right)))) \<and>
   velocity (player (state_of (onTouchEnd 1300 (restartGame draws_right pressed_right))))
     = \<lparr>xcoord = 1512 / 5, ycoord = - (2016 / 5)\<rparr>"
proof -
  have a: "\<not> (gameStarted started_right \<and> isPressing started_right)"
    by (simp add: state_defs model_defs)
  have b: "gameStarted pressed_right \<and> isPressing pressed_right"
    by (simp add: state_defs model_defs)
  have vals: "canvasWidth pressed_right = 400" "pressStartTime pressed_right = 1000"
    "platforms (restartGame draws_right pressed_right) = [platform0, wide 1 208]"
    by (simp_all add: state_defs model_defs)
  have launch: "\<not> onGround (player (state_of (onTouchEnd 1300 (restartGame draws_right pressed_right)))) \<and>
      velocity (player (state_of (onTouchEnd 1300 (restartGame draws_right pressed_right))))
        = \<lparr>xcoord = 1512 / 5, ycoord = - (2016 / 5)\<rparr>"
    using restart_keeps_pending_press [of draws_right pressed_right 1300] b
    by (auto simp: vals platform0_def wide_def hypot_zero chargeFactor_def horizontalFactor_def)
  show ?thesis
    using restart_keeps_pending_press [of draws_right started_right 1300]
      restart_keeps_pending_press [of draws_right pressed_right 1300] a b vals(2,3) launch
    by simp
qed

text \<open>
  Claim C4 as stated fails: press at 1000, restart, release at 1300; the reset player is
  launched with the velocity of a 300 ms press.
\<close>

theorem restart_keeps_pending_press_counterexample:
  "reachable pressed_right \<and> isPressing pressed_right \<and>
   reachable (restartGame draws_right pressed_right) \<and>
   velocity (player (restartGame draws_right pressed_right)) = \<lparr>xcoord = 0, ycoord = 0\<rparr> \<and>
   onGround (player (restartGame draws_right pressed_right)) \<and>
   velocity (player (state_of (onTouchEnd 1300 (restartGame draws_right pressed_right))))
     = \<lparr>xcoord = 1512 / 5, ycoord = - (2016 / 5)\<rparr> \<and>
   velocity (player (state_of (onTouchEnd 1300 (restartGame draws_right pressed_right))))
     \<noteq> \<lparr>xcoord = 0, ycoord = 0\<rparr> \<and>
   \<not> onGround (player (state_of (onTouchEnd 1300 (restartGame draws_right pressed_right))))"
  using pressed_right_reachable
    reachable_restartGame [OF pressed_right_reachable valid_draws_right]
  by (simp add: state_defs model_defs)

subsection \<open>C5: horizontal distance of a generated platform\<close>

text \<open>
  Claim C5, as amended. The offset that the generator draws satisfies
  \<open>minDx \<le> |dx| \<le> maxDx\<close> with \<open>minDx = round (0.22 w)\<close> and \<open>maxDx = round (0.45 w)\<close>, but
  the new centre is \<open>previous.x + dx\<close> clamped to \<open>[round (0.18 w), round (0.82 w)]\<close>. So
  the distance to a previous platform inside that band is at most \<open>maxDx\<close>, and it lies in
  \<open>[minDx, maxDx]\<close> whenever the unclamped centre falls inside the band.
\<close>

theorem generated_dx_bounds:
  assumes "valid_draws d" and "0 \<le> canvasWidth s"
  shows "xcoord (position (generateNextPlatform d s prev)) =
           clamp (xcoord (position prev) + platformDx d s)
             (js_round (canvasWidth s * (18 / 100))) (js_round (canvasWidth s * (82 / 100)))
       \<and> js_round (canvasWidth s * (22 / 100)) \<le> \<bar>platformDx d s\<bar>
       \<and> \<bar>platformDx d s\<bar> \<le> js_round (canvasWidth s * (45 / 100))
       \<and> (js_round (canvasWidth s * (18 / 100)) \<le> xcoord (position prev) \<and>
          xcoord (position prev) \<le> js_round (canvasWidth s * (82 / 100)) \<longrightarrow>
            \<bar>xcoord (position (generateNextPlatform d s prev)) - xcoord (position prev)\<bar>
              \<le> js_round (canvasWidth s * (45 / 100)))
       \<and> (js_round (canvasWidth s * (18 / 100)) \<le> xcoord (position prev) + platformDx d s \<and>
          xcoord (position prev) + platformDx d s \<le> js_round (canvasWidth s * (82 / 100)) \<longrightarrow>
            js_round (canvasWidth s * (22 / 100))
              \<le> \<bar>xcoord (position (generateNextPlatform d s prev)) - xcoord (position prev)\<bar> \<and>
            \<bar>xcoord (position (generateNextPlatform d s prev)) - xcoord (position prev)\<bar>
              \<le> js_round (canvasWidth s * (45 / 100)))"
proof -
  note b = platformDx_abs [OF assms]
  have c: "js_round (canvasWidth s * (18 / 100)) \<le> xcoord (position prev) \<Longrightarrow>
           xcoord (position prev) \<le> js_round (canvasWidth s * (82 / 100)) \<Longrightarrow>
           \<bar>xcoord (position (generateNextPlatform d s prev)) - xcoord (position prev)\<bar>
             \<le> \<bar>platformDx d s\<bar>"
    unfolding generate_x by (rule clamp_closer)
  show ?thesis
    using b c by (auto simp: generate_x clamp_id)
qed

theorem generated_dx_bounds_witness:
  "valid_draws draws_right \<and> 0 \<le> canvasWidth page400 \<and>
   js_round (canvasWidth page400 * (18 / 100)) \<le> xcoord (position platform0) \<and>
   xcoord (position platform0) \<le> js_round (canvasWidth page400 * (82 / 100)) \<and>
   js_round (canvasWidth page400 * (18 / 100))
     \<le> xcoord (position platform0) + platformDx draws_right page400 \<and>
   xcoord (position platform0) + platformDx draws_right page400
     \<le> js_round (canvasWidth page400 * (82 / 100)) \<and>
   js_round (canvasWidth page400 * (22 / 100))
     \<le> \<bar>xcoord (position (generateNextPlatform draws_right page400 platform0))
          - xcoord (position platform0)\<bar> \<and>
   \<bar>xcoord (position (generateNextPlatform draws_right page400 platform0))
      - xcoord (position platform0)\<bar> \<le> js_round (canvasWidth page400 * (45 / 100))"
proof -
  have w: "0 \<le> canvasWidth page400"
    by (simp add: page400_def initCanvas_def initial_def)
  have cw: "canvasWidth page400 = 400"
    by (simp add: page400_def initCanvas_def initial_def)
  show ?thesis
    using generated_dx_bounds [OF valid_draws_right w, of platform0] valid_draws_right
    by (simp add: cw platformDx_right_400 platform0_def js_round_def clamp_def)
qed

text \<open>
  Claim C5 as stated fails: in a 400 wide viewport the first platform sits at \<open>x = 120\<close>,
  inside the band \<open>[72, 328]\<close>; a draw to the left gives \<open>dx = -88\<close>, the centre \<open>32\<close> is
  clamped to \<open>72\<close>, and the distance \<open>48\<close> is below \<open>minDx = 88\<close>.
\<close>

theorem generated_dx_counterexample:
  "js_round (canvasWidth page400 * (18 / 100)) \<le> xcoord (position platform0) \<and>
   xcoord (position platform0) \<le> js_round (canvasWidth page400 * (82 / 100)) \<and>
   valid_draws draws_left \<and>
   \<not> (js_round (canvasWidth page400 * (22 / 100))
        \<le> \<bar>xcoord (position (generateNextPlatform draws_left page400 platform0))
             - xcoord (position platform0)\<bar>)"
  by (simp add: gen_left_400) (simp add: page400_def initCanvas_def initial_def platform0_def draws_left_def valid_draws_def js_round_def)

subsection \<open>C6: platform ids\<close>

text \<open>
  Claim C6 says that the ids in the platform sequence are strictly increasing without
  duplicates in every reachable state. The generator does give \<open>previous.id + 1\<close>
  (\<open>generate_pid\<close>), but after an eviction the landing branch reads its target by index: in
  \<open>evicted\<close> the target is the platform with id 7 while the last platform has id 8, and the
  landing appends a second platform with id 8 before \<^verbatim>\<open>recenterWorld\<close> throws. The page
  object keeps that sequence. In the states reached without a throw the ids are strictly
  increasing (\<open>ids_increasing_without_throw\<close>).
\<close>

theorem duplicate_id_after_eviction:
  "reachable faulted \<and> map pid (platforms faulted) = [3, 4, 5, 6, 7, 8, 8] \<and>
   \<not> distinct (map pid (platforms faulted))"
  using faulted_reachable by (simp add: faulted_def wide_def)

subsection \<open>C7: target is current plus one\<close>

text \<open>
  Claim C7. In every reachable state in which a tick lands the player,
  \<open>targetPlatformId = currentPlatformId + 1\<close> holds before the tick and in the state the tick
  leaves; and whenever the landing did not simply add one platform (the window was
  trimmed), exactly six platforms are retained.
\<close>

theorem landing_keeps_target_successor:
  assumes "reachable s" and "ctx s" and "\<not> onGround (player s)"
    and "at_index (platforms s) (targetPlatformId s) = Some target"
    and "checkLanding (integrate dt s) target"
  shows "targetPlatformId s = currentPlatformId s + 1 \<and>
         targetPlatformId (state_of (update dt d s))
           = currentPlatformId (state_of (update dt d s)) + 1 \<and>
         (length (platforms (state_of (update dt d s))) \<noteq> length (platforms s) + 1 \<longrightarrow>
            length (platforms (state_of (update dt d s))) = 6)"
proof -
  have "session_inv s" using assms(1) by (rule reachable_inv)
  moreover have "platforms s \<noteq> []" using assms(4) by (rule at_index_nonempty)
  ultimately have before: "targetPlatformId s = currentPlatformId s + 1"
    by (simp add: session_inv_def)
  let ?l = "state_of (land d target (integrate dt s))"
  have ids: "targetPlatformId ?l = currentPlatformId ?l + 1" by (rule land_ids)
  have len: "length (platforms ?l) = length (platforms s) + 1 \<or> length (platforms ?l) = 6"
    using land_length [of d target "integrate dt s"] by simp
  from update_landing [OF assms(2-5), of d] show ?thesis
  proof
    assume "state_of (update dt d s) = ?l"
    then show ?thesis using before ids len by auto
  next
    assume "state_of (update dt d s) = missCheck ?l"
    then show ?thesis using before ids len by auto
  qed
qed

text \<open>
  The seventh landing of the run above: the ids are 6 and 7 before, 3 and 4 after, and the
  nine platforms are trimmed to six.
\<close>

theorem landing_keeps_target_successor_witness:
  "reachable pre_evicted \<and> ctx pre_evicted \<and> \<not> onGround (player pre_evicted) \<and>
   at_index (platforms pre_evicted) (targetPlatformId pre_evicted) = Some (wide 7 32) \<and>
   checkLanding (integrate (1 / 40) pre_evicted) (wide 7 32) \<and>
   targetPlatformId pre_evicted = currentPlatformId pre_evicted + 1 \<and>
   targetPlatformId (state_of (update (1 / 40) draws_right pre_evicted))
     = currentPlatformId (state_of (update (1 / 40) draws_right pre_evicted)) + 1 \<and>
   length (platforms (state_of (update (1 / 40) draws_right pre_evicted)))
     \<noteq> length (platforms pre_evicted) + 1 \<and>
   length (platforms (state_of (update (1 / 40) draws_right pre_evicted))) = 6"
proof -
  have h: "ctx pre_evicted" "\<not> onGround (player pre_evicted)"
    "at_index (platforms pre_evicted) (targetPlatformId pre_evicted) = Some (wide 7 32)"
    "checkLanding (integrate (1 / 40) pre_evicted) (wide 7 32)"
    by (simp_all add: pre_evicted_def model_defs)
  have len: "length (platforms (state_of (update (1 / 40) draws_right pre_evicted)))
     \<noteq> length (platforms pre_evicted) + 1"
    by (simp add: eviction_tick) (simp add: evicted_def pre_evicted_def)
  show ?thesis
    using landing_keeps_target_successor [OF pre_evicted_reachable h, of draws_right]
      pre_evicted_reachable h len
    by simp
qed

subsection \<open>C8: the launch velocity\<close>

text \<open>
  Claim C8. When a release launches, with \<open>power = min (ms / 1000) 1.2 * chargeFactor * w\<close>
  and the direction \<open>target.position - current.position\<close> divided by the maximum of 1 and
  its Euclidean length (so the divisor is at least 1), the new velocity is
  \<open>(dir.x * power * horizontalFactor, dir.y * power * 0.4 - power * 0.8)\<close>, for every press
  duration and every pair of platforms found by the two lookups.
\<close>

theorem launch_velocity:
  assumes "gameStarted s" and "\<not> gameOver s" and "isPressing s"
    and "at_index (platforms s) (currentPlatformId s) = Some current"
    and "at_index (platforms s) (targetPlatformId s) = Some target"
  shows "\<exists>s'. onTouchEnd now s = Inr s' \<and>
     (let power = min (real_of_int (now - pressStartTime s) / 1000) (12 / 10)
                    * chargeFactor * canvasWidth s;
          dirX = xcoord (position target) - xcoord (position current);
          dirY = ycoord (position target) - ycoord (position current);
          len = max 1 (sqrt (dirX\<^sup>2 + dirY\<^sup>2))
      in 1 \<le> len \<and>
         xcoord (velocity (player s')) = dirX / len * power * horizontalFactor \<and>
         ycoord (velocity (player s')) = dirY / len * power * (4 / 10) - power * (8 / 10) \<and>
         \<not> onGround (player s'))"
  using onTouchEnd_launch [OF assms, of now] by (simp add: Let_def hypot_def)

text \<open>
  A press of 500 ms in the 400 wide viewport towards a target 88 to the right on the same
  level: power 840, velocity \<open>(504, -672)\<close>.
\<close>

theorem launch_velocity_witness:
  "gameStarted pressed_right \<and> \<not> gameOver pressed_right \<and> isPressing pressed_right \<and>
   at_index (platforms pressed_right) (currentPlatformId pressed_right) = Some platform0 \<and>
   at_index (platforms pressed_right) (targetPlatformId pressed_right) = Some (wide 1 208) \<and>
   (\<exists>s'. onTouchEnd 1500 pressed_right = Inr s' \<and>
         velocity (player s') = \<lparr>xcoord = 504, ycoord = - 672\<rparr> \<and> \<not> onGround (player s'))"
proof -
  have h: "gameStarted pressed_right" "\<not> gameOver pressed_right" "isPressing pressed_right"
    "at_index (platforms pressed_right) (currentPlatformId pressed_right) = Some platform0"
    "at_index (platforms pressed_right) (targetPlatformId pressed_right) = Some (wide 1 208)"
    by (simp_all add: state_defs model_defs)
  have len: "sqrt 7744 = 88"
    using real_sqrt_abs [of 88] by simp
  have w: "canvasWidth pressed_right = 400" "pressStartTime pressed_right = 1000"
    by (simp_all add: state_defs model_defs)
  obtain s' where s': "onTouchEnd 1500 pressed_right = Inr s'"
    and vx: "xcoord (velocity (player s')) = 504"
    and vy: "ycoord (velocity (player s')) = - 672"
    and g: "\<not> onGround (player s')"
    using launch_velocity [OF h, of 1500]
    by (auto simp: Let_def w len platform0_def wide_def chargeFactor_def horizontalFactor_def)
  have "velocity (player s') = \<lparr>xcoord = 504, ycoord = - 672\<rparr>"
    using vx vy by (cases "velocity (player s')") simp
  then show ?thesis using h s' g by simp
qed

subsection \<open>C9: landing classification\<close>

text \<open>
  Claim C9. \<^verbatim>\<open>checkLanding\<close> holds exactly if the player's x lies within the platform's
  width, its bottom point \<open>position.y + radius\<close> lies within
  \<open>[centre.y - height / 2 - 2, centre.y + height / 2 + 4]\<close> and \<open>velocity.y \<ge> 0\<close>, and the
  miss check holds exactly if \<open>position.y - radius > canvasHeight + 80\<close>, for every player
  and platform. In a tick on an airborne player that completes, both are applied to the
  player as the physics step leaves it: the player is grounded afterwards exactly if the
  landing check on the target holds, the game is over afterwards exactly if it was over
  before or the miss check holds, and if neither holds the tick leaves just the integrated
  state, still airborne.
\<close>

theorem landing_classification:
  assumes "ctx s" and "\<not> onGround (player s)"
    and "at_index (platforms s) (targetPlatformId s) = Some target"
    and "update dt d s = Inr s'"
  shows "(checkLanding q p \<longleftrightarrow>
            xcoord (position p) - xcoord (psize p) / 2 \<le> xcoord (pposition (player q)) \<and>
            xcoord (pposition (player q)) \<le> xcoord (position p) + xcoord (psize p) / 2 \<and>
            ycoord (position p) - ycoord (psize p) / 2 - 2
              \<le> ycoord (pposition (player q)) + radius (player q) \<and>
            ycoord (pposition (player q)) + radius (player q)
              \<le> ycoord (position p) + ycoord (psize p) / 2 + 4 \<and>
            0 \<le> ycoord (velocity (player q))) \<and>
         (fellBelow q \<longleftrightarrow>
            ycoord (pposition (player q)) - radius (player q) > canvasHeight q + 80) \<and>
         (onGround (player s') \<longleftrightarrow> checkLanding (integrate dt s) target) \<and>
         (gameOver s' \<longleftrightarrow> gameOver s \<or> fellBelow (integrate dt s)) \<and>
         (\<not> checkLanding (integrate dt s) target \<and> \<not> fellBelow (integrate dt s) \<longrightarrow>
            s' = integrate dt s)"
proof -
  have pure: "checkLanding q p \<longleftrightarrow>
            xcoord (position p) - xcoord (psize p) / 2 \<le> xcoord (pposition (player q)) \<and>
            xcoord (pposition (player q)) \<le> xcoord (position p) + xcoord (psize p) / 2 \<and>
            ycoord (position p) - ycoord (psize p) / 2 - 2
              \<le> ycoord (pposition (player q)) + radius (player q) \<and>
            ycoord (pposition (player q)) + radius (player q)
              \<le> ycoord (position p) + ycoord (psize p) / 2 + 4 \<and>
            0 \<le> ycoord (velocity (player q))"
    by (simp add: checkLanding_def Let_def)
  have fell: "fellBelow q \<longleftrightarrow>
            ycoord (pposition (player q)) - radius (player q) > canvasHeight q + 80"
    by (simp add: fellBelow_def)
  have tick: "(onGround (player s') \<longleftrightarrow> checkLanding (integrate dt s) target) \<and>
         (gameOver s' \<longleftrightarrow> gameOver s \<or> fellBelow (integrate dt s)) \<and>
         (\<not> checkLanding (integrate dt s) target \<and> \<not> fellBelow (integrate dt s) \<longrightarrow>
            s' = integrate dt s)"
  proof (cases "checkLanding (integrate dt s) target")
    case True
    have s': "s' = missCheck (state_of (land d target (integrate dt s)))"
      using assms(1-3) True assms(4) by (rule update_landing_done)
    show ?thesis using True by (simp add: s' land_fields land_fellBelow)
  next
    case False
    have "state_of (update dt d s) = missCheck (integrate dt s)"
      using assms(1-3) False by (rule update_airborne_done)
    then have s': "s' = missCheck (integrate dt s)" using assms(4) by simp
    show ?thesis using False assms(2) by (simp add: s') (simp add: missCheck_def)
  qed
  show ?thesis using pure fell tick by blast
qed

theorem landing_classification_witness:
  "ctx launched_left \<and> \<not> onGround (player launched_left) \<and>
   at_index (platforms launched_left) (targetPlatformId launched_left) = Some (wide 1 72) \<and>
   update (1 / 40) draws_right launched_left = Inr landed_left \<and>
   checkLanding (integrate (1 / 40) launched_left) (wide 1 72) \<and>
   onGround (player landed_left) \<and> \<not> gameOver landed_left \<and>
   \<not> fellBelow (integrate (1 / 40) launched_left) \<and>
   ctx launched_right \<and> \<not> onGround (player launched_right) \<and>
   at_index (platforms launched_right) (targetPlatformId launched_right) = Some (wide 1 208) \<and>
   update (33 / 1000) draws_right launched_right = Inr (integrate (33 / 1000) launched_right) \<and>
   \<not> checkLanding (integrate (33 / 1000) launched_right) (wide 1 208) \<and>
   \<not> fellBelow (integrate (33 / 1000) launched_right) \<and>
   \<not> onGround (player (integrate (33 / 1000) launched_right))"
proof -
  have air: "\<not> checkLanding (integrate (33 / 1000) launched_right) (wide 1 208)"
    "\<not> fellBelow (integrate (33 / 1000) launched_right)"
    by (simp_all add: state_defs model_defs)
  have over: "\<not> gameOver landed_left"
    by (simp add: landed_left_def)
  show ?thesis
    using landing_classification [OF launched_left_facts(1-3) landing_tick]
      landing_classification [OF launched_right_facts airborne_tick]
      launched_left_facts launched_right_facts landing_tick landing_tick_check airborne_tick
      air over
    by simp
qed

subsection \<open>C10: landing and game over in one tick\<close>

lemma landing_above_fall_line:
  assumes shape: "shape_ok s p"
    and rad: "radius (player s) = js_round (canvasWidth s / 20)"
    and dims: "0 \<le> canvasWidth s" "0 \<le> canvasHeight s"
    and landing: "checkLanding s p"
  shows "\<not> fellBelow s"
proof
  assume fell: "fellBelow s"
  let ?y = "ycoord (pposition (player s))"
  let ?r = "radius (player s)"
  have bottom: "?y + ?r \<le> ycoord (position p) + ycoord (psize p) / 2 + 4"
    using landing by (simp add: checkLanding_def Let_def)
  have py: "ycoord (position p) \<le> canvasHeight s * (8 / 10) + 1 / 2"
    using shape js_round_upper [of "canvasHeight s * (8 / 10)"] by (simp add: shape_ok_def)
  have ph: "ycoord (psize p) \<le> max 12 (canvasWidth s * (784 / 10000) + 64 / 100)"
    using shape by (simp add: shape_ok_def)
  have r: "canvasWidth s / 20 - 1 / 2 < ?r"
    using js_round_lower [of "canvasWidth s / 20"] rad by simp
  have below: "canvasHeight s + 80 < ?y - ?r"
    using fell by (simp add: fellBelow_def)
  show False
    using bottom py ph r below dims by (simp add: max_def split: if_splits)
qed

text \<open>
  Claim C10. In every reachable state of a viewport with positive width and height, if the
  landing check of a tick succeeds on the target, the fall condition does not hold for the
  same player, and the tick does not change \<open>gameOver\<close>.
\<close>

theorem landing_excludes_game_over:
  assumes "reachable s" and "0 < canvasWidth s" and "0 < canvasHeight s"
    and "ctx s" and "\<not> onGround (player s)"
    and "at_index (platforms s) (targetPlatformId s) = Some target"
    and "checkLanding (integrate dt s) target"
  shows "\<not> fellBelow (integrate dt s) \<and> gameOver (state_of (update dt d s)) = gameOver s"
proof -
  have inv: "session_inv s" using assms(1) by (rule reachable_inv)
  have mem: "target \<in> set (platforms s)" using assms(6) by (rule at_index_mem)
  have shape: "shape_ok (integrate dt s) target"
    using inv mem assms(2,3) by (simp add: session_inv_def shape_ok_def)
  have rad: "radius (player (integrate dt s)) = js_round (canvasWidth (integrate dt s) / 20)"
    using inv mem by (auto simp: session_inv_def)
  have nofall: "\<not> fellBelow (integrate dt s)"
    using shape rad _ _ assms(7) by (rule landing_above_fall_line) (use assms(2,3) in simp_all)
  have "gameOver (state_of (update dt d s)) = gameOver s"
    using update_landing [OF assms(4-7), of d] nofall
    by (auto simp: land_fields land_fellBelow)
  with nofall show ?thesis by simp
qed

theorem landing_excludes_game_over_witness:
  "reachable launched_left \<and> 0 < canvasWidth launched_left \<and> 0 < canvasHeight launched_left \<and>
   ctx launched_left \<and> \<not> onGround (player launched_left) \<and>
   at_index (platforms launched_left) (targetPlatformId launched_left) = Some (wide 1 72) \<and>
   checkLanding (integrate (1 / 40) launched_left) (wide 1 72) \<and>
   \<not> fellBelow (integrate (1 / 40) launched_left) \<and>
   gameOver (state_of (update (1 / 40) draws_right launched_left)) = gameOver launched_left"
proof -
  have d: "0 < canvasWidth launched_left" "0 < canvasHeight launched_left"
    by (simp_all add: launched_left_facts)
  show ?thesis
    using landing_excludes_game_over [OF launched_left_reachable d launched_left_facts(1-3)
        landing_tick_check, of draws_right]
      launched_left_reachable d launched_left_facts landing_tick_check
    by simp
qed

end
